theory Spec2Isabelle
  imports Complex_Main "HOL-Library.Sublist"
begin

section \<open>Conventions\<close>

text \<open>
  The two material classes are modelled in IEEE-754 binary64 arithmetic: each float
  literal and each arithmetic operation of their methods is rounded to nearest, ties to
  even, by the function \<open>rd\<close> below; overflow to infinity and NaN are left out. In the
  strain-compatibility engine and in the continuation controller a float is a real
  number: a literal denotes its decimal value and the operations (the geometry and the
  sums of the engine, the loads and responses of the controller) are exact, so the
  statements about them concern the structure of the computation.
  Exceptions are values of the type \<open>error\<close>; a function that can raise returns
  \<open>error + 'a\<close> with \<open>Inl\<close> the exception. Calls of \<open>print\<close> have no effect on any
  value and are left out.
\<close>

datatype error =
    ValueError string
  | Exception string
  | ZeroDivisionError
  | KeyError
  | AttributeError
  | HelperRaised

text \<open>\<open>str.lower()\<close> on the ASCII letters; the strings compared below are ASCII.\<close>

definition lower_char :: "char \<Rightarrow> char" where
  "lower_char c =
     (case map_of (zip ''ABCDEFGHIJKLMNOPQRSTUVWXYZ'' ''abcdefghijklmnopqrstuvwxyz'') c of
        Some l \<Rightarrow> l
      | None \<Rightarrow> c)"

definition lower :: "string \<Rightarrow> string" where
  "lower s = map lower_char s"

section \<open>Binary64 rounding\<close>

text \<open>
  \<open>round_even\<close> rounds a real to the nearest integer, a tie to the even one.
  \<open>binade x\<close> is the exponent \<open>e\<close> with \<open>2^e \<le> |x| < 2^(e+1)\<close>, and \<open>- 1022\<close> below the
  normal range; the binary64 values of that binade are the multiples of \<open>2^(e - 52)\<close>.
  \<open>rd x\<close> is the binary64 value nearest to \<open>x\<close>: the result of a float literal, or of
  one arithmetic operation whose exact result is \<open>x\<close>.
\<close>

definition round_even :: "real \<Rightarrow> int" where
  "round_even y =
     (let f = \<lfloor>y\<rfloor>; d = y - of_int f
      in if d < 1 / 2 then f else if 1 / 2 < d then f + 1 else if even f then f else f + 1)"

definition binade :: "real \<Rightarrow> int" where
  "binade x = max \<lfloor>log 2 \<bar>x\<bar>\<rfloor> (- 1022)"

definition rd :: "real \<Rightarrow> real" where
  "rd x =
     (if x = 0 then 0
      else of_int (round_even (x / 2 powi (binade x - 52))) * 2 powi (binade x - 52))"

section \<open>Material models (section/ACI_strain_compatibility.py)\<close>

subsection \<open>AciStrainCompatibilitySteelMaterial\<close>

record steel_material =
  Fy :: real
  Es :: real

text \<open>The property \<open>ey\<close>: \<open>Fy / Es\<close>, a ZeroDivisionError when \<open>Es\<close> is zero.\<close>

definition ey :: "steel_material \<Rightarrow> error + real" where
  "ey mat = (if Es mat = 0 then Inl ZeroDivisionError else Inr (rd (Fy mat / Es mat)))"

text \<open>The body of the loop of \<open>get_stress\<close>, for one strain value.\<close>

definition steel_stress :: "steel_material \<Rightarrow> real \<Rightarrow> error + real" where
  "steel_stress mat v =
     (case ey mat of
        Inl err \<Rightarrow> Inl err
      | Inr yield \<Rightarrow>
          if v \<le> - yield then Inr (- Fy mat)
          else if v \<le> yield then Inr (rd (v * Es mat))
          else Inr (Fy mat))"

text \<open>\<open>get_stress\<close>: the loop over the strain array, appending one stress per strain.\<close>

fun steel_get_stress :: "steel_material \<Rightarrow> real list \<Rightarrow> error + real list" where
  "steel_get_stress mat [] = Inr []"
| "steel_get_stress mat (v # vs) =
     (case steel_stress mat v of
        Inl err \<Rightarrow> Inl err
      | Inr s \<Rightarrow> (case steel_get_stress mat vs of Inl err \<Rightarrow> Inl err | Inr ss \<Rightarrow> Inr (s # ss)))"

subsection \<open>AciStrainCompatibilityConcreteMaterial\<close>

record concrete_material =
  fc :: real
  units :: string


text \<open>
  The two branches of the property \<open>beta1\<close>, one per unit system. The expression
  \<open>0.85 - 0.05 * (self.fc - 28) / 7\<close> is evaluated as Python parses it: the product, then
  the quotient, then the difference.
\<close>

definition beta1_us :: "real \<Rightarrow> real" where
  "beta1_us f =
     (if f \<le> 4 then rd 0.85
      else if f \<le> 8 then rd (rd 0.85 - rd (rd 0.05 * rd (f - 4)))
      else rd 0.65)"

definition beta1_si :: "real \<Rightarrow> real" where
  "beta1_si f =
     (if f \<le> 28 then rd 0.85
      else if f \<le> 55 then rd (rd 0.85 - rd (rd (rd 0.05 * rd (f - 28)) / 7))
      else rd 0.65)"

definition beta1 :: "concrete_material \<Rightarrow> error + real" where
  "beta1 mat =
     (if lower (units mat) = ''us'' then Inr (beta1_us (fc mat))
      else if lower (units mat) = ''si'' then Inr (beta1_si (fc mat))
      else Inl (ValueError (''The given units ('' @ units mat @ '') is not supported yet'')))"



section \<open>The strain-compatibility engine (class AciStrainCompatibility)\<close>

datatype material = Steel steel_material | Concrete concrete_material


text \<open>
  A boundary point is one row of the three column arrays \<open>_x\<close>, \<open>_y\<close>, \<open>_r\<close> that
  \<open>add_concrete_boundary\<close> and \<open>add_steel_boundary\<close> stack. A fiber is one entry of
  the parallel arrays \<open>A\<close>, \<open>x\<close>, \<open>y\<close>, \<open>m\<close> that \<open>build_data\<close> reads from the
  fiber section, which also supplies \<open>uniq_mats\<close>.
\<close>

record boundary_point =
  boundary_x :: real
  boundary_y :: real
  boundary_r :: real

record fiber =
  fiber_A :: real
  fiber_x :: real
  fiber_y :: real
  fiber_m :: nat

record aci_strain_compatibility =
  concrete_boundary :: "boundary_point list"
  steel_boundary :: "boundary_point list"
  materials :: "nat \<rightharpoonup> material"
  fibers :: "fiber list"
  uniq_mats :: "nat list"

definition extreme_concrete_compression_strain :: real where
  "extreme_concrete_compression_strain = - 0.003"

definition default_tensile_strain :: real where
  "default_tensile_strain = 0.005"

definition add_concrete_boundary ::
  "aci_strain_compatibility \<Rightarrow> real \<Rightarrow> real \<Rightarrow> real \<Rightarrow> aci_strain_compatibility" where
  "add_concrete_boundary self x y r =
     self\<lparr>concrete_boundary :=
       concrete_boundary self @ [\<lparr>boundary_x = x, boundary_y = y, boundary_r = r\<rparr>]\<rparr>"

definition add_steel_boundary ::
  "aci_strain_compatibility \<Rightarrow> real \<Rightarrow> real \<Rightarrow> real \<Rightarrow> aci_strain_compatibility" where
  "add_steel_boundary self x y r =
     self\<lparr>steel_boundary :=
       steel_boundary self @ [\<lparr>boundary_x = x, boundary_y = y, boundary_r = r\<rparr>]\<rparr>"






text \<open>The array \<open>strain\<close> of \<open>compute_point\<close>, given \<open>y_ecf\<close>.\<close>

definition fiber_strains ::
  "aci_strain_compatibility \<Rightarrow> real \<Rightarrow> real \<Rightarrow> real \<Rightarrow> real \<Rightarrow> real list" where
  "fiber_strains self xpt ypt angle y_ecf =
     (let a = sin angle;
          b = - cos angle;
          c = - sin angle * xpt + cos angle * ypt
      in if y_ecf < 0
         then map (\<lambda>f. extreme_concrete_compression_strain / y_ecf * (a * fiber_x f + b * fiber_y f + c))
                (fibers self)
         else map (\<lambda>one. default_tensile_strain * one) (replicate (length (fibers self)) 1))"






subsection \<open>Reference notions for the engine\<close>



definition stress_law :: "material \<Rightarrow> real \<Rightarrow> real" where
  "stress_law mat v =
     (case mat of
        Steel sm \<Rightarrow>
          (if v \<le> - rd (Fy sm / Es sm) then - Fy sm
           else if v \<le> rd (Fy sm / Es sm) then rd (v * Es sm)
           else Fy sm)
      | Concrete cm \<Rightarrow>
          (let b = (if lower (units cm) = ''us'' then beta1_us (fc cm) else beta1_si (fc cm))
           in if v \<le> rd (- rd 0.003 * rd (1 - b)) then rd (- rd 0.85 * fc cm) else 0))"

text \<open>
  \<open>elastic_top\<close> is the stress that the elastic branch of the steel \<open>get_stress\<close>
  returns at the yield strain \<open>ey\<close>: the rounded product of the rounded quotient
  \<open>Fy / Es\<close> and \<open>Es\<close>.
\<close>

definition elastic_top :: "steel_material \<Rightarrow> real" where
  "elastic_top mat = rd (rd (Fy mat / Es mat) * Es mat)"





section \<open>The continuation controller (cross_section_2d.py)\<close>

subsection \<open>The equilibrium solver as a scripted black box\<close>

text \<open>
  The solver \<open>ops\<close> is opaque and stateful. Every call the controller makes is appended
  to a log, in the order of the calls; what a call returns is a function of the log up to
  and including that call. Any deterministic solver is an instance, and the order of the
  controller's calls can be read off the log.
\<close>

datatype integrator = LoadControl real | DisplacementControl nat nat real

datatype algorithm = Newton | ModifiedNewton | KrylovNewton

datatype cmd =
    Wipe
  | Model
  | BuildFiberSection
  | Node nat
  | Fix nat nat nat nat
  | Mass nat
  | Element string
  | TimeSeries nat
  | Pattern nat nat
  | Load nat real real real
  | Integrator integrator
  | System string
  | Test real nat
  | Numberer string
  | Constraints
  | Algorithm algorithm
  | Analysis
  | Analyze
  | LoadConst
  | GetTime
  | Eigen
  | NodeDisp nat nat
  | EleForce nat nat

text \<open>
  The collaborators of one \<open>CrossSection2d\<close>: the responses of the solver, the section
  object (\<open>type(self.section).__name__ == "RC"\<close> and its two strain methods), the field
  \<open>ops_element_type\<close>, and the two helpers imported from the package root, whose source
  is not part of the files at hand: they are parameters, \<open>None\<close> standing for an
  exception raised inside them.
\<close>

record env =
  ops_analyze :: "cmd list \<Rightarrow> int"
  ops_getTime :: "cmd list \<Rightarrow> real"
  ops_eigen :: "cmd list \<Rightarrow> real"
  ops_nodeDisp :: "cmd list \<Rightarrow> real"
  ops_eleForce :: "cmd list \<Rightarrow> real"
  section_is_RC :: bool
  ops_element_type :: string
  section_maximum_concrete_compression_strain :: "real \<Rightarrow> real \<Rightarrow> real"
  section_maximum_tensile_steel_strain :: "real \<Rightarrow> real \<Rightarrow> real"
  find_limit_point_in_list :: "real list \<Rightarrow> real option \<Rightarrow> (int \<times> real) option"
  interpolate_list :: "real list \<Rightarrow> int \<Rightarrow> real \<Rightarrow> real option"

text \<open>The keyword arguments of \<open>run_ops_analysis\<close>; \<open>None\<close> is Python's \<open>None\<close>.\<close>

record config =
  arg_e :: real
  arg_P :: real
  num_steps_vertical :: int
  load_incr_factor :: real
  disp_incr_factor :: real
  eigenvalue_limit :: "real option"
  percent_load_drop_limit :: "real option"
  concrete_strain_limit :: "real option"
  steel_strain_limit :: "real option"
  try_smaller_steps :: bool

definition default_config :: config where
  "default_config =
     \<lparr>arg_e = 0, arg_P = 0, num_steps_vertical = 20,
      load_incr_factor = 1 / 100000, disp_incr_factor = 1 / 10000000,
      eigenvalue_limit = Some 0, percent_load_drop_limit = Some 0.05,
      concrete_strain_limit = Some (- 0.01), steel_strain_limit = Some 0.05,
      try_smaller_steps = True\<rparr>"

text \<open>The object \<open>results\<close>; an attribute that has not been assigned is \<open>None\<close>.\<close>

record results =
  applied_axial_load :: "real list"
  maximum_abs_moment :: "real list"
  lowest_eigenvalue :: "real list"
  extreme_comp_strain :: "real list"
  maximum_concrete_compression_strain :: "real list"
  maximum_steel_strain :: "real list"
  exit_message :: "string option"
  applied_axial_load_at_limit_point :: "real option"
  maximum_abs_moment_at_limit_point :: "real option"

definition initial_results :: results where
  "initial_results =
     \<lparr>applied_axial_load = [], maximum_abs_moment = [], lowest_eigenvalue = [],
      extreme_comp_strain = [], maximum_concrete_compression_strain = [],
      maximum_steel_strain = [], exit_message = None,
      applied_axial_load_at_limit_point = None, maximum_abs_moment_at_limit_point = None\<rparr>"

subsection \<open>build_ops_model\<close>

definition build_ops_model :: "env \<Rightarrow> cmd list \<Rightarrow> error + cmd list" where
  "build_ops_model env lg =
     (let lg = lg @ [Wipe, Model];
          lg = (if section_is_RC env then lg @ [BuildFiberSection] else lg);
          lg = lg @ [Node 1, Node 2, Fix 1 1 1 1, Fix 2 0 1 0, Mass 2]
      in if ops_element_type env = ''zeroLengthSection''
         then Inr (lg @ [Element ''zeroLengthSection''])
         else Inl (ValueError (''ops_element_type '' @ ops_element_type env @ '' not recognized'')))"

subsection \<open>find_limit_point\<close>

text \<open>Python's \<open>max\<close> of a list: a ValueError on the empty list.\<close>

definition py_max :: "real list \<Rightarrow> error + real" where
  "py_max xs =
     (case xs of
        [] \<Rightarrow> Inl (ValueError ''max() arg is an empty sequence'')
      | v # vs \<Rightarrow> Inr (fold max vs v))"

definition call_find_limit_point_in_list ::
  "env \<Rightarrow> real list \<Rightarrow> real option \<Rightarrow> error + (int \<times> real)" where
  "call_find_limit_point_in_list env xs val =
     (case find_limit_point_in_list env xs val of None \<Rightarrow> Inl HelperRaised | Some r \<Rightarrow> Inr r)"

text \<open>
  The last two statements of \<open>find_limit_point\<close>: the same \<open>ind\<close> and \<open>x\<close> applied to the
  applied-axial-load series and to the maximum-absolute-moment series.
\<close>

definition interpolate_at :: "env \<Rightarrow> results \<Rightarrow> int \<Rightarrow> real \<Rightarrow> error + results" where
  "interpolate_at env res ind x =
     (case interpolate_list env (applied_axial_load res) ind x of
        None \<Rightarrow> Inl HelperRaised
      | Some p \<Rightarrow>
          (case interpolate_list env (maximum_abs_moment res) ind x of
             None \<Rightarrow> Inl HelperRaised
           | Some m \<Rightarrow>
               Inr (res\<lparr>applied_axial_load_at_limit_point := Some p,
                        maximum_abs_moment_at_limit_point := Some m\<rparr>)))"

text \<open>
  \<open>'Analysis Failed' in results.exit_message\<close> is a substring test; the branches are
  tried in the order of the source.
\<close>

definition find_limit_point :: "env \<Rightarrow> config \<Rightarrow> results \<Rightarrow> error + results" where
  "find_limit_point env cfg res =
     (case exit_message res of
        None \<Rightarrow> Inl AttributeError
      | Some msg \<Rightarrow>
          (case
             (if sublist ''Analysis Failed'' msg then
                (case py_max (maximum_abs_moment res) of
                   Inl err \<Rightarrow> Inl err
                 | Inr mx \<Rightarrow> call_find_limit_point_in_list env (maximum_abs_moment res) (Some mx))
              else if sublist ''Eigenvalue Limit'' msg then
                call_find_limit_point_in_list env (lowest_eigenvalue res) (eigenvalue_limit cfg)
              else if sublist ''Extreme Compressive Concrete Fiber Strain Limit Reached'' msg then
                call_find_limit_point_in_list env (maximum_concrete_compression_strain res)
                  (concrete_strain_limit cfg)
              else if sublist ''Extreme Steel Fiber Strain Limit Reached'' msg then
                call_find_limit_point_in_list env (maximum_steel_strain res) (steel_strain_limit cfg)
              else if sublist ''Load Drop Limit Reached'' msg then
                (case py_max (maximum_abs_moment res) of
                   Inl err \<Rightarrow> Inl err
                 | Inr mx \<Rightarrow> call_find_limit_point_in_list env (maximum_abs_moment res) (Some mx))
              else Inl (Exception ''Unknown limit point''))
           of
             Inl err \<Rightarrow> Inl err
           | Inr (ind, x) \<Rightarrow> interpolate_at env res ind x))"

subsection \<open>The recorders\<close>

text \<open>
  The three closures named \<open>record\<close>. Each appends one entry to every series; the
  first two (proportional path, vertical phase) append the constant 0 to
  \<open>maximum_abs_moment\<close>.
\<close>

definition record_prop :: "env \<Rightarrow> cmd list \<times> results \<Rightarrow> cmd list \<times> results" where
  "record_prop env = (\<lambda>(lg, res).
     (let lg = lg @ [GetTime];
          time = ops_getTime env lg;
          res = res\<lparr>applied_axial_load := applied_axial_load res @ [time]\<rparr>;
          res = res\<lparr>maximum_abs_moment := maximum_abs_moment res @ [0]\<rparr>;
          lg = lg @ [Eigen];
          res = res\<lparr>lowest_eigenvalue := lowest_eigenvalue res @ [ops_eigen env lg]\<rparr>;
          lg = lg @ [NodeDisp 2 1];
          axial_strain = ops_nodeDisp env lg;
          lg = lg @ [NodeDisp 2 3];
          curvatureX = ops_nodeDisp env lg;
          res = res\<lparr>maximum_concrete_compression_strain :=
                  maximum_concrete_compression_strain res
                    @ [section_maximum_concrete_compression_strain env axial_strain curvatureX]\<rparr>;
          res = res\<lparr>maximum_steel_strain :=
                  maximum_steel_strain res
                    @ [section_maximum_tensile_steel_strain env axial_strain curvatureX]\<rparr>
      in (lg, res)))"

definition record_vertical :: "env \<Rightarrow> cmd list \<times> results \<Rightarrow> cmd list \<times> results" where
  "record_vertical env = (\<lambda>(lg, res).
     (let lg = lg @ [GetTime];
          time = ops_getTime env lg;
          res = res\<lparr>applied_axial_load := applied_axial_load res @ [time]\<rparr>;
          res = res\<lparr>maximum_abs_moment := maximum_abs_moment res @ [0]\<rparr>;
          lg = lg @ [Eigen];
          res = res\<lparr>lowest_eigenvalue := lowest_eigenvalue res @ [ops_eigen env lg]\<rparr>;
          lg = lg @ [NodeDisp 2 1];
          axial_strain = ops_nodeDisp env lg;
          lg = lg @ [NodeDisp 2 3];
          curvatureX = ops_nodeDisp env lg;
          res = res\<lparr>maximum_concrete_compression_strain :=
                  maximum_concrete_compression_strain res
                    @ [section_maximum_concrete_compression_strain env axial_strain curvatureX]\<rparr>;
          res = res\<lparr>maximum_steel_strain :=
                  maximum_steel_strain res
                    @ [section_maximum_tensile_steel_strain env axial_strain curvatureX]\<rparr>
      in (lg, res)))"

definition record_lateral :: "env \<Rightarrow> real \<Rightarrow> cmd list \<times> results \<Rightarrow> cmd list \<times> results" where
  "record_lateral env P = (\<lambda>(lg, res).
     (let lg = lg @ [GetTime];
          res = res\<lparr>applied_axial_load := applied_axial_load res @ [P]\<rparr>;
          lg = lg @ [EleForce 1 3];
          res = res\<lparr>maximum_abs_moment := maximum_abs_moment res @ [\<bar>ops_eleForce env lg\<bar>]\<rparr>;
          lg = lg @ [Eigen];
          res = res\<lparr>lowest_eigenvalue := lowest_eigenvalue res @ [ops_eigen env lg]\<rparr>;
          lg = lg @ [NodeDisp 2 1];
          axial_strain = ops_nodeDisp env lg;
          lg = lg @ [NodeDisp 2 3];
          curvatureX = ops_nodeDisp env lg;
          res = res\<lparr>maximum_concrete_compression_strain :=
                  maximum_concrete_compression_strain res
                    @ [section_maximum_concrete_compression_strain env axial_strain curvatureX]\<rparr>;
          res = res\<lparr>maximum_steel_strain :=
                  maximum_steel_strain res
                    @ [section_maximum_tensile_steel_strain env axial_strain curvatureX]\<rparr>
      in (lg, res)))"

subsection \<open>One increment and its retries\<close>

text \<open>\<open>ok = ops.analyze(1)\<close>: the status and the log with the call appended.\<close>

definition do_analyze :: "env \<Rightarrow> cmd list \<Rightarrow> int \<times> cmd list" where
  "do_analyze env lg = (let lg = lg @ [Analyze] in (ops_analyze env lg, lg))"

text \<open>
  The block \<open>ok = ops.analyze(1)\<close> \<dots> \<open>if ok != 0: \<dots> Greater Tolerance\<close> of the
  proportional loop: the status, the log and \<open>load_incr_factor\<close> after it.
\<close>

definition prop_attempts :: "env \<Rightarrow> bool \<Rightarrow> cmd list \<Rightarrow> real \<Rightarrow> int \<times> cmd list \<times> real" where
  "prop_attempts env tss lg0 lif0 =
     (let (ok, lg) = do_analyze env lg0;
          (ok, lg, lif) =
            (if tss then
               (let (ok, lg) =
                      (if ok \<noteq> 0
                       then do_analyze env (lg @ [Integrator (LoadControl (lif0 / 10))])
                       else (ok, lg));
                    (ok, lg) =
                      (if ok \<noteq> 0
                       then do_analyze env (lg @ [Integrator (LoadControl (lif0 / 100))])
                       else (ok, lg));
                    (ok, lg, lif) =
                      (if ok \<noteq> 0
                       then (let (ok, lg) = do_analyze env (lg @ [Integrator (LoadControl (lif0 / 1000))])
                             in (ok, lg, if ok = 0 then lif0 / 10 else lif0))
                       else (ok, lg, lif0));
                    (ok, lg, lif) =
                      (if ok \<noteq> 0
                       then (let (ok, lg) = do_analyze env (lg @ [Integrator (LoadControl (lif / 10000))])
                             in (ok, lg, if ok = 0 then lif / 10 else lif))
                       else (ok, lg, lif))
                in (ok, lg, lif))
             else (ok, lg, lif0));
          (ok, lg) =
            (if ok \<noteq> 0 then do_analyze env (lg @ [Algorithm ModifiedNewton]) else (ok, lg));
          (ok, lg) =
            (if ok \<noteq> 0 then do_analyze env (lg @ [Algorithm KrylovNewton]) else (ok, lg));
          (ok, lg) =
            (if ok \<noteq> 0
             then do_analyze env (lg @ [Algorithm KrylovNewton, Test (1 / 100) 10])
             else (ok, lg))
      in (ok, lg, lif))"

text \<open>The same block of the non-proportional (lateral) loop.\<close>

definition nonprop_attempts :: "env \<Rightarrow> bool \<Rightarrow> cmd list \<Rightarrow> real \<Rightarrow> int \<times> cmd list \<times> real" where
  "nonprop_attempts env tss lg0 dif0 =
     (let (ok, lg) = do_analyze env lg0;
          (ok, lg, dif) =
            (if tss then
               (let (ok, lg) =
                      (if ok \<noteq> 0
                       then do_analyze env (lg @ [Integrator (DisplacementControl 1 3 (dif0 / 10))])
                       else (ok, lg));
                    (ok, lg) =
                      (if ok \<noteq> 0
                       then do_analyze env (lg @ [Integrator (DisplacementControl 1 3 (dif0 / 100))])
                       else (ok, lg));
                    (ok, lg, dif) =
                      (if ok \<noteq> 0
                       then (let (ok, lg) =
                                   do_analyze env (lg @ [Integrator (DisplacementControl 1 3 (dif0 / 1000))])
                             in (ok, lg, if ok = 0 then dif0 / 10 else dif0))
                       else (ok, lg, dif0));
                    (ok, lg, dif) =
                      (if ok \<noteq> 0
                       then (let (ok, lg) =
                                   do_analyze env (lg @ [Integrator (DisplacementControl 1 3 (dif / 10000))])
                             in (ok, lg, if ok = 0 then dif / 10 else dif))
                       else (ok, lg, dif))
                in (ok, lg, dif))
             else (ok, lg, dif0));
          (ok, lg) =
            (if ok \<noteq> 0 then do_analyze env (lg @ [Algorithm ModifiedNewton]) else (ok, lg));
          (ok, lg) =
            (if ok \<noteq> 0 then do_analyze env (lg @ [Algorithm KrylovNewton]) else (ok, lg));
          (ok, lg) =
            (if ok \<noteq> 0
             then do_analyze env (lg @ [Algorithm KrylovNewton, Test (1 / 10000) 10])
             else (ok, lg))
      in (ok, lg, dif))"

subsection \<open>The monitors\<close>

text \<open>
  The four checks after \<open>record()\<close>, in the order of the source; the result is the exit
  message of the first check that breaks the loop, and the running maximum. \<open>record()\<close>
  has just appended to every series, so \<open>[-1]\<close> reads the entry of this increment.
\<close>

definition prop_monitors :: "config \<Rightarrow> real \<Rightarrow> results \<Rightarrow> string option \<times> real" where
  "prop_monitors cfg maximum_applied_axial_load res =
     (let (drop, mx) =
            (case percent_load_drop_limit cfg of
               None \<Rightarrow> (False, maximum_applied_axial_load)
             | Some pl \<Rightarrow>
                 (let current_applied_axial_load = last (applied_axial_load res);
                      mx = max maximum_applied_axial_load current_applied_axial_load
                  in (current_applied_axial_load < (1 - pl) * mx, mx)))
      in if drop then (Some ''Load Drop Limit Reached'', mx)
         else if (case eigenvalue_limit cfg of
                    None \<Rightarrow> False
                  | Some el \<Rightarrow> last (lowest_eigenvalue res) < el)
         then (Some ''Eigenvalue Limit Reached'', mx)
         else if (case concrete_strain_limit cfg of
                    None \<Rightarrow> False
                  | Some cl \<Rightarrow> last (maximum_concrete_compression_strain res) < cl)
         then (Some ''Extreme Compressive Concrete Fiber Strain Limit Reached'', mx)
         else if (case steel_strain_limit cfg of
                    None \<Rightarrow> False
                  | Some sl \<Rightarrow> last (maximum_steel_strain res) > sl)
         then (Some ''Extreme Steel Fiber Strain Limit Reached'', mx)
         else (None, mx))"

text \<open>
  On the lateral path the load-drop check reads \<open>ops.getTime()\<close> again, a call of its
  own, and the eigenvalue check compares with the literal 0.
\<close>

definition nonprop_monitors ::
  "env \<Rightarrow> config \<Rightarrow> cmd list \<Rightarrow> real \<Rightarrow> results \<Rightarrow> string option \<times> cmd list \<times> real" where
  "nonprop_monitors env cfg lg0 maximum_time res =
     (let (drop, lg, mx) =
            (case percent_load_drop_limit cfg of
               None \<Rightarrow> (False, lg0, maximum_time)
             | Some pl \<Rightarrow>
                 (let lg = lg0 @ [GetTime];
                      current_time = ops_getTime env lg;
                      mx = max maximum_time current_time
                  in (current_time < (1 - pl) * mx, lg, mx)))
      in if drop then (Some ''Load Drop Limit Reached'', lg, mx)
         else if (case eigenvalue_limit cfg of
                    None \<Rightarrow> False
                  | Some el \<Rightarrow> last (lowest_eigenvalue res) < 0)
         then (Some ''Eigenvalue Limit Reached'', lg, mx)
         else if (case concrete_strain_limit cfg of
                    None \<Rightarrow> False
                  | Some cl \<Rightarrow> last (maximum_concrete_compression_strain res) < cl)
         then (Some ''Extreme Compressive Concrete Fiber Strain Limit Reached'', lg, mx)
         else if (case steel_strain_limit cfg of
                    None \<Rightarrow> False
                  | Some sl \<Rightarrow> last (maximum_steel_strain res) > sl)
         then (Some ''Extreme Steel Fiber Strain Limit Reached'', lg, mx)
         else (None, lg, mx))"

subsection \<open>The loops\<close>

text \<open>
  One pass through the body of \<open>while True\<close>: \<open>Inl\<close> is a \<open>break\<close> with the log and
  the results (the exit message set), \<open>Inr\<close> the state of the next pass: the log, the
  step size, the running maximum and the results.
\<close>

type_synonym loop_state = "cmd list \<times> real \<times> real \<times> results"

definition prop_body :: "env \<Rightarrow> config \<Rightarrow> loop_state \<Rightarrow> (cmd list \<times> results) + loop_state" where
  "prop_body env cfg = (\<lambda>(lg, lif, mx, res).
     (let (ok, lg, lif) = prop_attempts env (try_smaller_steps cfg) lg lif
      in if ok = 0 then
           (let lg = lg @ [Algorithm Newton, Test (1 / 1000) 10, Integrator (LoadControl lif)];
                (lg, res) = record_prop env (lg, res);
                (msg, mx) = prop_monitors cfg mx res
            in case msg of
                 Some m \<Rightarrow> Inl (lg, res\<lparr>exit_message := Some m\<rparr>)
               | None \<Rightarrow> Inr (lg, lif, mx, res))
         else Inl (lg, res\<lparr>exit_message := Some ''Analysis Failed''\<rparr>)))"

definition nonprop_body ::
  "env \<Rightarrow> config \<Rightarrow> loop_state \<Rightarrow> (cmd list \<times> results) + loop_state" where
  "nonprop_body env cfg = (\<lambda>(lg, dif, mx, res).
     (let (ok, lg, dif) = nonprop_attempts env (try_smaller_steps cfg) lg dif
      in if ok = 0 then
           (let lg = lg @ [Algorithm Newton, Test (1 / 1000) 10, Integrator (LoadControl dif)];
                (lg, res) = record_lateral env (arg_P cfg) (lg, res);
                (msg, lg, mx) = nonprop_monitors env cfg lg mx res
            in case msg of
                 Some m \<Rightarrow> Inl (lg, res\<lparr>exit_message := Some m\<rparr>)
               | None \<Rightarrow> Inr (lg, dif, mx, res))
         else Inl (lg, res\<lparr>exit_message := Some ''Analysis Failed''\<rparr>)))"

text \<open>
  \<open>while True\<close> has no bound: a solver that always converges with no monitor firing
  keeps it running, and then the loop has no value (\<open>None\<close>).
\<close>

partial_function (option) prop_loop ::
  "env \<Rightarrow> config \<Rightarrow> loop_state \<Rightarrow> (cmd list \<times> results) option" where
  "prop_loop env cfg st =
     (case prop_body env cfg st of
        Inl fin \<Rightarrow> Some fin
      | Inr st' \<Rightarrow> prop_loop env cfg st')"

partial_function (option) nonprop_loop ::
  "env \<Rightarrow> config \<Rightarrow> loop_state \<Rightarrow> (cmd list \<times> results) option" where
  "nonprop_loop env cfg st =
     (case nonprop_body env cfg st of
        Inl fin \<Rightarrow> Some fin
      | Inr st' \<Rightarrow> nonprop_loop env cfg st')"

text \<open>
  The loop \<open>for i in range(num_steps_vertical)\<close>: \<open>Inl\<close> is the early \<open>return results\<close>
  after a failed increment, \<open>Inr\<close> the state after all increments.
\<close>

fun vertical_loop ::
  "env \<Rightarrow> nat \<Rightarrow> cmd list \<times> results \<Rightarrow> (cmd list \<times> results) + (cmd list \<times> results)" where
  "vertical_loop env 0 st = Inr st"
| "vertical_loop env (Suc n) (lg, res) =
     (let (ok, lg) = do_analyze env lg
      in if ok \<noteq> 0
         then Inl (lg, res\<lparr>exit_message := Some ''Analysis Failed In Vertical Loading''\<rparr>)
         else vertical_loop env n (record_vertical env (lg, res)))"

subsection \<open>run_ops_analysis\<close>

text \<open>The solver set-up of the two paths, up to and including the first \<open>record()\<close>.\<close>

definition prop_init :: "env \<Rightarrow> config \<Rightarrow> cmd list \<Rightarrow> cmd list \<times> results" where
  "prop_init env cfg lg =
     record_prop env
       (lg @ [TimeSeries 1, Pattern 1 1, Load 2 (- 1) 0 (arg_e cfg),
               Integrator (LoadControl (load_incr_factor cfg)), System ''SparseGeneral'',
               Test (1 / 1000) 10, Numberer ''Plain'', Constraints, Algorithm Newton,
               Analysis, Analyze],
        initial_results)"

definition vertical_init :: "env \<Rightarrow> config \<Rightarrow> cmd list \<Rightarrow> cmd list \<times> results" where
  "vertical_init env cfg lg =
     record_vertical env
       (lg @ [TimeSeries 100, Pattern 200 100, Load 2 (- 1) 0 0, Constraints, Numberer ''RCM'',
               System ''UmfPack'', Test (1 / 1000) 10, Algorithm Newton,
               Integrator (LoadControl (arg_P cfg / real_of_int (num_steps_vertical cfg))),
               Analysis],
        initial_results)"

definition lateral_init :: "env \<Rightarrow> config \<Rightarrow> cmd list \<times> results \<Rightarrow> cmd list \<times> results" where
  "lateral_init env cfg = (\<lambda>(lg, res).
     record_lateral env (arg_P cfg)
       (lg @ [LoadConst, TimeSeries 101, Pattern 201 101, Load 2 0 0 1,
               Integrator (DisplacementControl 2 3 (disp_incr_factor cfg)), Analysis],
        res))"

text \<open>
  The result is \<open>None\<close> when a \<open>while True\<close> loop does not end, \<open>Some (Inl err)\<close> when
  an exception leaves the function, and \<open>Some (Inr (lg, results))\<close> when it returns.
\<close>

definition finish :: "env \<Rightarrow> config \<Rightarrow> (cmd list \<times> results) option \<Rightarrow> (error + cmd list \<times> results) option" where
  "finish env cfg r =
     (case r of
        None \<Rightarrow> None
      | Some (lg, res) \<Rightarrow>
          (case find_limit_point env cfg res of
             Inl err \<Rightarrow> Some (Inl err)
           | Inr res' \<Rightarrow> Some (Inr (lg, res'))))"

definition run_ops_analysis ::
  "env \<Rightarrow> string \<Rightarrow> config \<Rightarrow> cmd list \<Rightarrow> (error + cmd list \<times> results) option" where
  "run_ops_analysis env analysis_type cfg lg0 =
     (case build_ops_model env lg0 of
        Inl err \<Rightarrow> Some (Inl err)
      | Inr lg \<Rightarrow>
          if lower analysis_type = ''proportional_limit_point'' then
            (let (lg, res) = prop_init env cfg lg
             in finish env cfg (prop_loop env cfg (lg, load_incr_factor cfg, 0, res)))
          else if lower analysis_type = ''nonproportional_limit_point'' then
            (if num_steps_vertical cfg = 0 then Some (Inl ZeroDivisionError)
             else
               (case vertical_loop env (nat (num_steps_vertical cfg)) (vertical_init env cfg lg) of
                  Inl (lg, res) \<Rightarrow> Some (Inr (lg, res))
                | Inr st \<Rightarrow>
                    (let (lg, res) = lateral_init env cfg st
                     in finish env cfg (nonprop_loop env cfg (lg, disp_incr_factor cfg, 0, res)))))
          else Some (Inl (ValueError (''Analysis type '' @ analysis_type @ '' not implemented''))))"

subsection \<open>run_ops_interaction\<close>

text \<open>
  The test \<open>P in [None, [None]]\<close> compares Python values; \<open>P\<close> is the one-element list
  holding the maximum of the recorded loads.
\<close>

datatype pyval = PyNone | PyFloat real | PyList "pyval list"

definition axial_only_failed :: "real \<Rightarrow> bool" where
  "axial_only_failed mx = (PyList [PyFloat mx] \<in> set [PyNone, PyList [PyNone]])"

text \<open>
  The loop \<open>for i in range(1, num_points)\<close>, over the list of the values of \<open>i\<close>; the
  state is the log and the lists \<open>P\<close> and \<open>M\<close>, of which \<open>P[0]\<close> is the axial-only
  maximum.
\<close>

fun interaction_loop ::
  "env \<Rightarrow> int \<Rightarrow> real \<Rightarrow> real \<Rightarrow> int list \<Rightarrow> cmd list \<times> real list \<times> real list
     \<Rightarrow> (error + cmd list \<times> real list \<times> real list) option" where
  "interaction_loop env num_points nonprop_lif P0 [] st = Some (Inr st)"
| "interaction_loop env num_points nonprop_lif P0 (i # rest) (lg, P, M) =
     (let iP = P0 * real_of_int (num_points - 1 - i) / real_of_int (num_points - 1)
      in case run_ops_analysis env ''nonproportional_limit_point''
                (default_config\<lparr>arg_P := iP, load_incr_factor := nonprop_lif\<rparr>) lg of
           None \<Rightarrow> None
         | Some (Inl err) \<Rightarrow> Some (Inl err)
         | Some (Inr (lg, res)) \<Rightarrow>
             (case py_max (maximum_abs_moment res) of
                Inl err \<Rightarrow> Some (Inl err)
              | Inr mm \<Rightarrow>
                  interaction_loop env num_points nonprop_lif P0 rest (lg, P @ [iP], M @ [mm])))"

definition run_ops_interaction ::
  "env \<Rightarrow> int \<Rightarrow> real \<Rightarrow> real \<Rightarrow> cmd list \<Rightarrow> (error + cmd list \<times> real list \<times> real list) option" where
  "run_ops_interaction env num_points prop_load_incr_factor nonprop_load_incr_factor lg0 =
     (case run_ops_analysis env ''proportional_limit_point''
             (default_config\<lparr>load_incr_factor := prop_load_incr_factor\<rparr>) lg0 of
        None \<Rightarrow> None
      | Some (Inl err) \<Rightarrow> Some (Inl err)
      | Some (Inr (lg, res)) \<Rightarrow>
          (case py_max (applied_axial_load res) of
             Inl err \<Rightarrow> Some (Inl err)
           | Inr mx \<Rightarrow>
               if axial_only_failed mx
               then Some (Inl (ValueError ''Analysis failed at axial only loading''))
               else interaction_loop env num_points nonprop_load_incr_factor mx
                      [1 .. num_points - 1] (lg, [mx], [0])))"

subsection \<open>Reference notions for the controller\<close>




text \<open>
  Modelled from the spec: \<open>interpolate_list\<close> is imported from the package root and its
  source is not among the files at hand. The spec describes it as applying the fractional
  position between the two bracketing steps: entry \<open>ind\<close> plus the fraction \<open>x\<close> of
  the difference to entry \<open>ind + 1\<close>; an integral position (fraction 0) reads the entry
  itself. A position outside the series raises.
\<close>

definition interpolate_list_spec :: "real list \<Rightarrow> int \<Rightarrow> real \<Rightarrow> real option" where
  "interpolate_list_spec xs ind x =
     (if 0 \<le> ind \<and> nat ind + 1 < length xs
      then Some (xs ! nat ind + x * (xs ! (nat ind + 1) - xs ! nat ind))
      else if 0 \<le> ind \<and> nat ind < length xs \<and> x = 0 then Some (xs ! nat ind)
      else None)"

text \<open>
  A solver for evaluation: the status of the \<open>k\<close>-th call of \<open>analyze\<close> is
  \<open>script k\<close>, the time is the number of calls of \<open>analyze\<close> so far.
\<close>

definition analyze_count :: "cmd list \<Rightarrow> nat" where
  "analyze_count lg = length (filter (\<lambda>c. c = Analyze) lg)"

definition scripted_env :: "(nat \<Rightarrow> int) \<Rightarrow> env" where
  "scripted_env script =
     \<lparr>ops_analyze = (\<lambda>lg. script (analyze_count lg)),
      ops_getTime = (\<lambda>lg. real (analyze_count lg)),
      ops_eigen = (\<lambda>lg. 1),
      ops_nodeDisp = (\<lambda>lg. 0),
      ops_eleForce = (\<lambda>lg. 0),
      section_is_RC = True,
      ops_element_type = ''zeroLengthSection'',
      section_maximum_concrete_compression_strain = (\<lambda>axial_strain curvatureX. axial_strain),
      section_maximum_tensile_steel_strain = (\<lambda>axial_strain curvatureX. curvatureX),
      find_limit_point_in_list = (\<lambda>xs val. Some (0, 0)),
      interpolate_list = interpolate_list_spec\<rparr>"

text \<open>
  The limit point as the design describes it: the series of the governing condition and
  its target give an index and a fraction, and the same index and fraction are applied
  to the applied-axial-load series and to the maximum-absolute-moment series. For the
  moment series the target is its maximum.
\<close>

definition limit_point_from :: "env \<Rightarrow> results \<Rightarrow> real list \<Rightarrow> real option \<Rightarrow> error + results" where
  "limit_point_from env res series target =
     (case find_limit_point_in_list env series target of
        None \<Rightarrow> Inl HelperRaised
      | Some (ind, x) \<Rightarrow>
          (case interpolate_list env (applied_axial_load res) ind x of
             None \<Rightarrow> Inl HelperRaised
           | Some p \<Rightarrow>
               (case interpolate_list env (maximum_abs_moment res) ind x of
                  None \<Rightarrow> Inl HelperRaised
                | Some m \<Rightarrow>
                    Inr (res\<lparr>applied_axial_load_at_limit_point := Some p,
                             maximum_abs_moment_at_limit_point := Some m\<rparr>))))"

definition moment_limit_point :: "env \<Rightarrow> results \<Rightarrow> error + results" where
  "moment_limit_point env res =
     (case py_max (maximum_abs_moment res) of
        Inl err \<Rightarrow> Inl err
      | Inr mx \<Rightarrow> limit_point_from env res (maximum_abs_moment res) (Some mx))"

text \<open>
  The exit condition that an exit message stands for. \<open>find_limit_point\<close> recognises a
  condition by a phrase contained in the message, the phrases tried in the order of the
  source; a message containing none of them stands for no condition.
  \<open>controller_messages\<close> lists the messages that \<open>run_ops_analysis\<close> assigns to
  \<open>results.exit_message\<close>, each with the condition it reports.
\<close>

datatype exit_condition =
    AnalysisFailed
  | LoadDropLimit
  | EigenvalueLimit
  | ConcreteStrainLimit
  | SteelStrainLimit

definition exit_condition_of :: "string \<Rightarrow> exit_condition option" where
  "exit_condition_of msg =
     (if sublist ''Analysis Failed'' msg then Some AnalysisFailed
      else if sublist ''Eigenvalue Limit'' msg then Some EigenvalueLimit
      else if sublist ''Extreme Compressive Concrete Fiber Strain Limit Reached'' msg
        then Some ConcreteStrainLimit
      else if sublist ''Extreme Steel Fiber Strain Limit Reached'' msg then Some SteelStrainLimit
      else if sublist ''Load Drop Limit Reached'' msg then Some LoadDropLimit
      else None)"

definition controller_messages :: "(string \<times> exit_condition) list" where
  "controller_messages =
     [(''Analysis Failed'', AnalysisFailed),
      (''Analysis Failed In Vertical Loading'', AnalysisFailed),
      (''Load Drop Limit Reached'', LoadDropLimit),
      (''Eigenvalue Limit Reached'', EigenvalueLimit),
      (''Extreme Compressive Concrete Fiber Strain Limit Reached'', ConcreteStrainLimit),
      (''Extreme Steel Fiber Strain Limit Reached'', SteelStrainLimit)]"

text \<open>
  \<open>vertical_fails_at env st k\<close>: starting from the state \<open>st\<close> of the vertical phase,
  the \<open>k\<close>-th call of \<open>analyze\<close> is the first to return a nonzero status.
  \<open>series_lengths\<close> lists the lengths of the five recorded series, and
  \<open>no_limit_point\<close> says that no limit point has been stored.
\<close>

fun vertical_fails_at :: "env \<Rightarrow> cmd list \<times> results \<Rightarrow> nat \<Rightarrow> bool" where
  "vertical_fails_at env st 0 = False"
| "vertical_fails_at env (lg, res) (Suc k) =
     (let (ok, lg') = do_analyze env lg
      in if k = 0 then ok \<noteq> 0
         else ok = 0 \<and> vertical_fails_at env (record_vertical env (lg', res)) k)"

definition series_lengths :: "results \<Rightarrow> nat list" where
  "series_lengths res =
     [length (applied_axial_load res), length (maximum_abs_moment res),
      length (lowest_eigenvalue res), length (maximum_concrete_compression_strain res),
      length (maximum_steel_strain res)]"

definition no_limit_point :: "results \<Rightarrow> bool" where
  "no_limit_point res =
     (applied_axial_load_at_limit_point res = None \<and> maximum_abs_moment_at_limit_point res = None)"

text \<open>
  \<open>all_zero\<close>: every entry of a series is 0. \<open>controller_errors\<close>: the exceptions
  that can leave \<open>run_ops_analysis\<close>.
\<close>

definition all_zero :: "real list \<Rightarrow> bool" where
  "all_zero xs = (\<forall>v\<in>set xs. v = 0)"

definition controller_errors :: "error set" where
  "controller_errors =
     {AttributeError, HelperRaised, ZeroDivisionError,
      ValueError ''max() arg is an empty sequence'',
      Exception ''Unknown limit point''}
     \<union> range (\<lambda>t. ValueError (''ops_element_type '' @ t @ '' not recognized''))
     \<union> range (\<lambda>t. ValueError (''Analysis type '' @ t @ '' not implemented''))"

text \<open>
  The monitors as the design describes them: a list of conditions in a fixed order, of
  which the first that holds gives the exit message; a monitor whose threshold is
  \<open>None\<close> never holds. \<open>half_eigen_env\<close> is a solver that always converges and
  reports the lowest eigenvalue 1/2; \<open>unit_eigen_limit\<close> is the default configuration
  with the eigenvalue threshold 1 and the load-drop monitor off.
\<close>

fun first_monitor :: "(bool \<times> string) list \<Rightarrow> string option" where
  "first_monitor [] = None"
| "first_monitor ((fires, msg) # rest) = (if fires then Some msg else first_monitor rest)"

definition falls_below :: "real list \<Rightarrow> real option \<Rightarrow> bool" where
  "falls_below series limit = (case limit of None \<Rightarrow> False | Some l \<Rightarrow> last series < l)"

definition rises_above :: "real list \<Rightarrow> real option \<Rightarrow> bool" where
  "rises_above series limit = (case limit of None \<Rightarrow> False | Some l \<Rightarrow> last series > l)"

definition half_eigen_env :: env where
  "half_eigen_env = (scripted_env (\<lambda>k. 0))\<lparr>ops_eigen := (\<lambda>lg. 1 / 2)\<rparr>"

definition unit_eigen_limit :: config where
  "unit_eigen_limit = default_config\<lparr>eigenvalue_limit := Some 1, percent_load_drop_limit := None\<rparr>"

section \<open>Properties of binary64 rounding\<close>

lemma round_even_of_int: "round_even (of_int n) = n"
  by (simp add: round_even_def)

lemma round_even_lower: "\<lfloor>y\<rfloor> \<le> round_even y"
  by (simp add: round_even_def Let_def)

lemma round_even_upper: "round_even y \<le> \<lfloor>y\<rfloor> + 1"
  by (simp add: round_even_def Let_def)

lemma round_even_mono:
  assumes "a \<le> b"
  shows "round_even a \<le> round_even b"
proof (cases "\<lfloor>a\<rfloor> = \<lfloor>b\<rfloor>")
  case True
  have "a - of_int \<lfloor>b\<rfloor> \<le> b - of_int \<lfloor>b\<rfloor>" using assms by simp
  then show ?thesis unfolding round_even_def Let_def True by (simp only: split: if_splits) linarith
next
  case False
  then have "\<lfloor>a\<rfloor> < \<lfloor>b\<rfloor>" using floor_mono[OF assms] by simp
  then have "round_even a \<le> \<lfloor>b\<rfloor>" using round_even_upper[of a] by simp
  then show ?thesis using round_even_lower[of b] by simp
qed


lemma round_even_uminus: "round_even (- y) = - round_even y"
proof (cases "y = of_int \<lfloor>y\<rfloor>")
  case True
  then have "round_even (- y) = round_even (of_int (- \<lfloor>y\<rfloor>))" by simp
  also have "\<dots> = - \<lfloor>y\<rfloor>" by (rule round_even_of_int)
  also have "\<dots> = - round_even (of_int \<lfloor>y\<rfloor>)" by (simp only: round_even_of_int)
  finally show ?thesis using True by simp
next
  case False
  have "\<lceil>y\<rceil> = \<lfloor>y\<rfloor> + 1" using False by (simp add: ceiling_altdef)
  then have fl: "\<lfloor>- y\<rfloor> = - \<lfloor>y\<rfloor> - 1" by (simp add: ceiling_def)
  have d: "- y - of_int (- \<lfloor>y\<rfloor> - 1) = 1 - (y - of_int \<lfloor>y\<rfloor>)" by simp
  have nz: "y - of_int \<lfloor>y\<rfloor> \<noteq> 0" using False by simp
  have pos: "0 \<le> y - of_int \<lfloor>y\<rfloor>" by simp
  define t where "t = y - of_int \<lfloor>y\<rfloor>"
  define f where "f = \<lfloor>y\<rfloor>"
  have ev: "even (- f - 1) \<longleftrightarrow> odd f" by simp
  show ?thesis
    unfolding round_even_def Let_def fl d
    unfolding t_def[symmetric] f_def[symmetric] ev
    by (cases "t < 1 / 2"; cases "1 / 2 < t"; cases "even f"; simp; linarith?)
qed


lemma binade_uminus: "binade (- x) = binade x"
  by (simp add: binade_def)

lemma binade_ge: "- 1022 \<le> binade x"
  by (simp add: binade_def)

lemma two_powi_pos: "0 < (2::real) powi e"
  by simp

lemma two_powi_powr: "(2::real) powi e = 2 powr (of_int e)"
  by (simp add: powr_real_of_int')

lemma binade_upper:
  assumes "x \<noteq> 0"
  shows "\<bar>x\<bar> < 2 powi (binade x + 1)"
proof -
  have "log 2 \<bar>x\<bar> < of_int (\<lfloor>log 2 \<bar>x\<bar>\<rfloor> + 1)" by linarith
  also have "\<dots> \<le> of_int (binade x + 1)" by (simp add: binade_def)
  finally have "2 powr (log 2 \<bar>x\<bar>) < 2 powr (of_int (binade x + 1))" by simp
  then show ?thesis using assms by (simp add: two_powi_powr)
qed

lemma binade_lower:
  assumes "x \<noteq> 0" and "- 1022 < binade x"
  shows "2 powi (binade x) \<le> \<bar>x\<bar>"
proof -
  have "binade x = \<lfloor>log 2 \<bar>x\<bar>\<rfloor>" using assms(2) by (simp add: binade_def max_def split: if_splits)
  then have "of_int (binade x) \<le> log 2 \<bar>x\<bar>" by simp
  then have "2 powr (of_int (binade x)) \<le> 2 powr (log 2 \<bar>x\<bar>)" by simp
  then show ?thesis using assms(1) by (simp add: two_powi_powr)
qed

lemma binade_mono:
  assumes "x \<noteq> 0" and "\<bar>x\<bar> \<le> \<bar>y\<bar>"
  shows "binade x \<le> binade y"
proof -
  have "log 2 \<bar>x\<bar> \<le> log 2 \<bar>y\<bar>" using assms by simp
  then have "\<lfloor>log 2 \<bar>x\<bar>\<rfloor> \<le> \<lfloor>log 2 \<bar>y\<bar>\<rfloor>" by (rule floor_mono)
  then show ?thesis by (simp add: binade_def)
qed

lemma binade_eq:
  assumes "2 powi e \<le> \<bar>x\<bar>" and "\<bar>x\<bar> < 2 powi (e + 1)" and "- 1022 \<le> e"
  shows "binade x = e"
proof -
  have pos: "0 < \<bar>x\<bar>" using assms(1) two_powi_pos[of e] by linarith
  have "2 powr (of_int e) \<le> \<bar>x\<bar>" "\<bar>x\<bar> < 2 powr (of_int e + 1)"
    using assms(1,2) by (simp_all add: two_powi_powr)
  then have "\<lfloor>log 2 \<bar>x\<bar>\<rfloor> = e" using pos by (simp add: floor_log_eq_powr_iff)
  then show ?thesis using assms(3) by (simp add: binade_def)
qed

lemma floor_log_less:
  assumes "x \<noteq> 0" and "\<bar>x\<bar> < 2 powi e"
  shows "\<lfloor>log 2 \<bar>x\<bar>\<rfloor> < e"
proof -
  have "2 powr (log 2 \<bar>x\<bar>) < 2 powr (of_int e)"
    using assms by (simp add: two_powi_powr)
  then have "log 2 \<bar>x\<bar> < of_int e" by (simp only: powr_less_cancel_iff) 
  then show ?thesis by linarith
qed

lemma binade_subnormal:
  assumes "x \<noteq> 0" and "\<bar>x\<bar> < 2 powi (- 1022)"
  shows "binade x = - 1022"
  using floor_log_less[OF assms] unfolding binade_def by (simp only: max_def split: if_splits) linarith

lemma rd_0: "rd 0 = 0"
  by (simp add: rd_def)

lemma rd_uminus: "rd (- x) = - rd x"
  by (simp add: rd_def binade_uminus round_even_uminus)

text \<open>Evaluation of \<open>rd\<close> at a value whose binade and nearest mantissa are given.\<close>

lemma rd_eval:
  assumes "2 powi e \<le> \<bar>x\<bar>" and "\<bar>x\<bar> < 2 powi (e + 1)" and "- 1022 \<le> e"
    and "\<bar>x / 2 powi (e - 52) - of_int n\<bar> < 1 / 2"
  shows "rd x = of_int n * 2 powi (e - 52)"
proof -
  have b: "binade x = e" using assms(1-3) by (rule binade_eq)
  have "0 < \<bar>x\<bar>" using less_le_trans[OF two_powi_pos assms(1)] .
  then have nz: "x \<noteq> 0" by simp
  define y where "y = x / 2 powi (e - 52)"
  have near: "\<bar>y - of_int n\<bar> < 1 / 2" using assms(4) by (simp add: y_def)
  have "round_even y = n"
  proof (cases "of_int n \<le> y")
    case True
    then have "\<lfloor>y\<rfloor> = n" using near by (simp add: floor_unique)
    then show ?thesis using near True by (simp add: round_even_def Let_def)
  next
    case False
    then have "\<lfloor>y\<rfloor> = n - 1" using near by (intro floor_unique) auto
    then show ?thesis using near False by (simp add: round_even_def Let_def)
  qed
  then show ?thesis using nz b by (simp add: rd_def y_def)
qed


lemma rd_scaled:
  "rd x = of_int (round_even (x / 2 powi (binade x - 52))) * 2 powi (binade x - 52)"
  by (simp add: rd_def round_even_def)

lemma rd_nonneg:
  assumes "0 \<le> x"
  shows "0 \<le> rd x"
proof -
  have "0 \<le> x / 2 powi (binade x - 52)" using assms by simp
  then have "round_even 0 \<le> round_even (x / 2 powi (binade x - 52))" by (rule round_even_mono)
  moreover have "round_even 0 = 0" using round_even_of_int[of 0] by simp
  ultimately have "0 \<le> round_even (x / 2 powi (binade x - 52))" by simp
  then show ?thesis unfolding rd_scaled[of x] by simp
qed

lemma two_powi_split: "(2::real) powi (e + 1) = 2 powi 53 * 2 powi (e - 52)"
proof -
  have "(2::real) powi (53 + (e - 52)) = 2 powi 53 * 2 powi (e - 52)"
    by (rule power_int_add) simp
  then show ?thesis by (simp add: algebra_simps)
qed

lemma two_powi_split': "(2::real) powi e = 2 powi 52 * 2 powi (e - 52)"
proof -
  have "(2::real) powi (52 + (e - 52)) = 2 powi 52 * 2 powi (e - 52)"
    by (rule power_int_add) simp
  then show ?thesis by (simp add: algebra_simps)
qed

lemma rd_le_next:
  assumes "0 < x"
  shows "rd x \<le> 2 powi (binade x + 1)"
proof -
  define s :: real where "s = 2 powi (binade x - 52)"
  have s: "0 < s" by (simp add: s_def)
  have "x < 2 powi 53 * s" using binade_upper[of x] assms
    unfolding s_def two_powi_split[symmetric] by simp
  then have "x / s \<le> of_int (2 ^ 53)" using s by (simp add: pos_divide_le_eq)
  then have "round_even (x / s) \<le> round_even (of_int (2 ^ 53))" by (rule round_even_mono)
  then have "round_even (x / s) \<le> 2 ^ 53" by (simp only: round_even_of_int)
  then have "(of_int (round_even (x / s)) :: real) \<le> of_int (2 ^ 53)" by (simp only: of_int_le_iff)
  then have "of_int (round_even (x / s)) * s \<le> of_int (2 ^ 53) * s" using s by simp
  then show ?thesis unfolding rd_scaled[of x] two_powi_split s_def by simp
qed

lemma rd_ge_binade:
  assumes "0 < x" and "- 1022 < binade x"
  shows "2 powi (binade x) \<le> rd x"
proof -
  define s :: real where "s = 2 powi (binade x - 52)"
  have s: "0 < s" by (simp add: s_def)
  have "2 powi 52 * s \<le> x" using binade_lower[of x] assms
    unfolding s_def two_powi_split'[symmetric] by simp
  then have "of_int (2 ^ 52) \<le> x / s" using s by (simp add: pos_le_divide_eq)
  then have "round_even (of_int (2 ^ 52)) \<le> round_even (x / s)" by (rule round_even_mono)
  then have "2 ^ 52 \<le> round_even (x / s)" by (simp only: round_even_of_int)
  then have "(of_int (2 ^ 52) :: real) \<le> of_int (round_even (x / s))" by (simp only: of_int_le_iff)
  then have "of_int (2 ^ 52) * s \<le> of_int (round_even (x / s)) * s" using s by simp
  then show ?thesis unfolding rd_scaled[of x] two_powi_split'[of "binade x"] s_def by simp
qed

lemma rd_mono_pos:
  assumes "0 < x" and "x \<le> y"
  shows "rd x \<le> rd y"
proof (cases "binade x = binade y")
  case True
  define s :: real where "s = 2 powi (binade y - 52)"
  have s: "0 < s" by (simp add: s_def)
  have "x / s \<le> y / s" using assms(2) s by (simp add: divide_right_mono)
  then have "round_even (x / s) \<le> round_even (y / s)" by (rule round_even_mono)
  then have "(of_int (round_even (x / s)) :: real) \<le> of_int (round_even (y / s))"
    by (simp only: of_int_le_iff)
  then have "of_int (round_even (x / s)) * s \<le> of_int (round_even (y / s)) * s"
    using s by simp
  then show ?thesis unfolding rd_scaled[of x] rd_scaled[of y] True s_def .
next
  case False
  have "binade x \<le> binade y" using assms by (intro binade_mono) auto
  then have lt: "binade x + 1 \<le> binade y" using False by simp
  have "- 1022 < binade y" using lt binade_ge[of x] by linarith
  then have "2 powi (binade y) \<le> rd y" using assms by (intro rd_ge_binade) auto
  moreover have "rd x \<le> 2 powi (binade x + 1)" using assms(1) by (rule rd_le_next)
  moreover have "(2::real) powi (binade x + 1) \<le> 2 powi (binade y)"
    using lt by (intro power_int_increasing) auto
  ultimately show ?thesis by linarith
qed

lemma rd_mono:
  assumes "x \<le> y"
  shows "rd x \<le> rd y"
proof -
  consider "0 < x" | "x = 0" | "x < 0" "y < 0" | "x < 0" "0 \<le> y" by linarith
  then show ?thesis
  proof cases
    case 1
    then show ?thesis using assms by (rule rd_mono_pos)
  next
    case 2
    then show ?thesis using rd_nonneg[of y] assms by (simp add: rd_0)
  next
    case 3
    then have "rd (- y) \<le> rd (- x)" using assms by (intro rd_mono_pos) auto
    then show ?thesis by (simp add: rd_uminus)
  next
    case 4
    have "0 \<le> rd (- x)" using 4(1) by (intro rd_nonneg) auto
    then have "rd x \<le> 0" by (simp add: rd_uminus)
    then show ?thesis using rd_nonneg[OF 4(2)] by linarith
  qed
qed

lemma rd_eval_tie:
  assumes "2 powi e \<le> \<bar>x\<bar>" and "\<bar>x\<bar> < 2 powi (e + 1)" and "- 1022 \<le> e"
    and "x / 2 powi (e - 52) = of_int n + 1 / 2"
  shows "rd x = of_int (if even n then n else n + 1) * 2 powi (e - 52)"
proof -
  have b: "binade x = e" using assms(1-3) by (rule binade_eq)
  have "0 < \<bar>x\<bar>" using less_le_trans[OF two_powi_pos assms(1)] .
  then have nz: "x \<noteq> 0" by simp
  define y where "y = x / 2 powi (e - 52)"
  have y: "y = of_int n + 1 / 2" using assms(4) by (simp add: y_def)
  have "\<lfloor>y\<rfloor> = n" unfolding y by (intro floor_unique) simp_all
  then have "round_even y = (if even n then n else n + 1)"
    using y by (simp add: round_even_def Let_def)
  then show ?thesis using nz b by (simp add: rd_def y_def)
qed

subsection \<open>Values of \<open>rd\<close> at the constants used below\<close>

lemma rd_1: "rd (1) = 1"
  using rd_eval[of "0" "1" 4503599627370496] by simp

lemma rd_4: "rd (4) = 4"
  using rd_eval[of "2" "4" 4503599627370496] by simp

lemma rd_27: "rd (27) = 27"
  using rd_eval[of "4" "27" 7599824371187712] by simp

lemma rd_lit_0_85: "rd (17 / 20) = 7656119366529843 / 9007199254740992"
  using rd_eval[of "- 1" "17 / 20" 7656119366529843] by simp

lemma rd_lit_0_05: "rd (1 / 20) = 3602879701896397 / 72057594037927936"
  using rd_eval[of "- 5" "1 / 20" 7205759403792794] by simp

lemma rd_lit_0_65: "rd (13 / 20) = 5854679515581645 / 9007199254740992"
  using rd_eval[of "- 1" "13 / 20" 5854679515581645] by simp

lemma rd_lit_0_8: "rd (4 / 5) = 3602879701896397 / 4503599627370496"
  using rd_eval[of "- 1" "4 / 5" 7205759403792794] by simp


lemma rd_lit_0_01: "rd (1 / 100) = 5764607523034235 / 576460752303423488"
  using rd_eval[of "- 7" "1 / 100" 5764607523034235] by simp

lemma rd_lit_0_00207: "rd (207 / 100000) = 2386547514536173 / 1152921504606846976"
  using rd_eval[of "- 9" "207 / 100000" 4773095029072346] by simp

lemma rd_lit_0_0003: "rd (3 / 10000) = 5534023222112865 / 18446744073709551616"
  using rd_eval[of "- 12" "3 / 10000" 5534023222112865] by simp

lemma rd_ey_60: "rd (3 / 1450) = 4770709674235229 / 2305843009213693952"
  using rd_eval[of "- 9" "3 / 1450" 4770709674235229] by simp

lemma rd_top_60: "rd (17293822569102705125 / 288230376151711744) = 60"
  using rd_eval[of "5" "17293822569102705125 / 288230376151711744" 8444249301319680] by simp

lemma rd_ey_51: "rd (51 / 200000) = 146997491837373 / 576460752303423488"
  using rd_eval[of "- 12" "51 / 200000" 4703919738795936] by simp

lemma rd_top_51: "rd (459367161991790625 / 9007199254740992) = 7177611906121729 / 140737488355328"
  using rd_eval[of "5" "459367161991790625 / 9007199254740992" 7177611906121729] by simp

lemma rd_d85: "rd (7656119366529843 / 9007199254740992) = 7656119366529843 / 9007199254740992"
  using rd_eval[of "- 1" "7656119366529843 / 9007199254740992" 7656119366529843] by simp

lemma rd_d05: "rd (3602879701896397 / 72057594037927936) = 3602879701896397 / 72057594037927936"
  using rd_eval[of "- 5" "3602879701896397 / 72057594037927936" 7205759403792794] by simp

lemma rd_us_prod_8: "rd (3602879701896397 / 18014398509481984) = 3602879701896397 / 18014398509481984"
  using rd_eval[of "- 3" "3602879701896397 / 18014398509481984" 7205759403792794] by simp

lemma rd_us_8: "rd (11709359031163289 / 18014398509481984) = 1463669878895411 / 2251799813685248"
  using rd_eval_tie[of "- 1" "11709359031163289 / 18014398509481984" 5854679515581644] by simp

lemma rd_us_5: "rd (57646075230342347 / 72057594037927936) = 7205759403792793 / 9007199254740992"
  using rd_eval[of "- 1" "57646075230342347 / 72057594037927936" 7205759403792793] by simp

lemma rd_si_prod_55: "rd (97277751951202719 / 72057594037927936) = 3039929748475085 / 2251799813685248"
  using rd_eval[of "0" "97277751951202719 / 72057594037927936" 6079859496950170] by simp

lemma rd_si_quot_55: "rd (3039929748475085 / 15762598695796736) = 6948410853657337 / 36028797018963968"
  using rd_eval[of "- 3" "3039929748475085 / 15762598695796736" 6948410853657337] by simp

lemma rd_si_55: "rd (23676066612462035 / 36028797018963968) = 5919016653115509 / 9007199254740992"
  using rd_eval[of "- 1" "23676066612462035 / 36028797018963968" 5919016653115509] by simp




section \<open>Steel stress law\<close>

lemma steel_stress_law:
  "Es mat \<noteq> 0 \<Longrightarrow> steel_stress mat v = Inr (stress_law (Steel mat) v)"
  by (simp add: steel_stress_def ey_def stress_law_def)

lemma steel_get_stress_law:
  "Es sm \<noteq> 0 \<Longrightarrow> steel_get_stress sm vs = Inr (map (stress_law (Steel sm)) vs)"
  by (induction vs) (simp_all add: steel_stress_law)

lemma yield_nonneg:
  assumes "0 < Fy mat" "0 < Es mat"
  shows "0 \<le> rd (Fy mat / Es mat)"
  using assms by (intro rd_nonneg) simp

lemma steel_elastic_bounds:
  assumes "0 < Es mat" "- rd (Fy mat / Es mat) \<le> v" "v \<le> rd (Fy mat / Es mat)"
  shows "- elastic_top mat \<le> rd (v * Es mat) \<and> rd (v * Es mat) \<le> elastic_top mat"
proof -
  have "v * Es mat \<le> rd (Fy mat / Es mat) * Es mat"
    using assms(1,3) by (intro mult_right_mono) simp_all
  then have up: "rd (v * Es mat) \<le> elastic_top mat"
    unfolding elastic_top_def by (rule rd_mono)
  have "- (rd (Fy mat / Es mat) * Es mat) \<le> v * Es mat"
    using mult_right_mono[OF assms(2), of "Es mat"] assms(1) by simp
  then have "rd (- (rd (Fy mat / Es mat) * Es mat)) \<le> rd (v * Es mat)"
    by (rule rd_mono)
  then have "- elastic_top mat \<le> rd (v * Es mat)"
    by (simp add: elastic_top_def rd_uminus)
  with up show ?thesis by simp
qed

lemma steel_law_bounds:
  assumes "0 < Fy mat" "0 < Es mat"
  shows "- max (Fy mat) (elastic_top mat) \<le> stress_law (Steel mat) v
       \<and> stress_law (Steel mat) v \<le> max (Fy mat) (elastic_top mat)"
proof (cases "v \<le> - rd (Fy mat / Es mat)")
  case True
  then show ?thesis using assms(1) by (simp add: stress_law_def)
next
  case lo: False
  show ?thesis
  proof (cases "v \<le> rd (Fy mat / Es mat)")
    case True
    have eb: "- elastic_top mat \<le> rd (v * Es mat) \<and> rd (v * Es mat) \<le> elastic_top mat"
      using lo True assms(2) by (intro steel_elastic_bounds) simp_all
    have s: "stress_law (Steel mat) v = rd (v * Es mat)"
      using lo True by (simp add: stress_law_def)
    have m: "elastic_top mat \<le> max (Fy mat) (elastic_top mat)" by simp
    show ?thesis unfolding s using eb m by linarith
  next
    case False
    then show ?thesis using lo assms(1) by (simp add: stress_law_def)
  qed
qed

lemma steel_law_mono:
  assumes "0 < Fy mat" "0 < Es mat" "elastic_top mat \<le> Fy mat" "s1 \<le> s2"
  shows "stress_law (Steel mat) s1 \<le> stress_law (Steel mat) s2"
proof -
  let ?y = "rd (Fy mat / Es mat)"
  have bb: "- Fy mat \<le> stress_law (Steel mat) s2" "stress_law (Steel mat) s1 \<le> Fy mat"
    using steel_law_bounds[OF assms(1,2), of s2] steel_law_bounds[OF assms(1,2), of s1] assms(3)
    by (simp_all add: max_def)
  show ?thesis
  proof (cases "s1 \<le> - ?y")
    case True
    then have "stress_law (Steel mat) s1 = - Fy mat" by (simp add: stress_law_def)
    then show ?thesis using bb by simp
  next
    case lo1: False
    then have lo2: "\<not> s2 \<le> - ?y" using assms(4) by simp
    show ?thesis
    proof (cases "s2 \<le> ?y")
      case True
      then have "s1 \<le> ?y" using assms(4) by simp
      then have "stress_law (Steel mat) s1 = rd (s1 * Es mat)"
        using lo1 by (simp add: stress_law_def)
      moreover have "stress_law (Steel mat) s2 = rd (s2 * Es mat)"
        using lo2 True by (simp add: stress_law_def)
      moreover have "s1 * Es mat \<le> s2 * Es mat"
        using assms(2,4) by (intro mult_right_mono) simp_all
      ultimately show ?thesis using rd_mono by simp
    next
      case False
      then have "stress_law (Steel mat) s2 = Fy mat" using lo2 by (simp add: stress_law_def)
      then show ?thesis using bb by simp
    qed
  qed
qed

lemma steel_law_zero:
  assumes "0 < Fy mat" "0 < Es mat"
  shows "stress_law (Steel mat) 0 = (if 0 < rd (Fy mat / Es mat) then 0 else - Fy mat)"
  using yield_nonneg[OF assms] by (simp add: stress_law_def rd_0)

lemma elastic_top_le:
  assumes "0 < Es mat" "rd (Fy mat) = Fy mat" "rd (Fy mat / Es mat) \<le> Fy mat / Es mat"
  shows "elastic_top mat \<le> Fy mat"
proof -
  have "rd (Fy mat / Es mat) * Es mat \<le> Fy mat / Es mat * Es mat"
    using assms(1,3) by (intro mult_right_mono) simp_all
  then have "rd (Fy mat / Es mat) * Es mat \<le> Fy mat" using assms(1) by simp
  then have "elastic_top mat \<le> rd (Fy mat)" unfolding elastic_top_def by (rule rd_mono)
  then show ?thesis by (simp add: assms(2))
qed


text \<open>
  Claim C8 as stated fails: for \<open>Fy = 51\<close> and \<open>Es = 200000\<close> the yield strain
  \<open>ey\<close> is the binary64 value of 0.000255, and at that strain the elastic branch
  returns \<open>rd (ey * Es) = 51.00000000000001\<close>: the increasing strain array
  \<open>[0.000255, 0.0003]\<close> yields the stresses \<open>[51.00000000000001, 51]\<close>, the first above
  \<open>Fy\<close> and above the second.
\<close>

theorem steel_stress_above_yield_strength:
  "rd 0.000255 < rd 0.0003
   \<and> steel_get_stress \<lparr>Fy = 51, Es = 200000\<rparr> [rd 0.000255, rd 0.0003]
       = Inr [7177611906121729 / 140737488355328, 51]
   \<and> (51::real) < 7177611906121729 / 140737488355328"
  by (simp add: steel_stress_def ey_def rd_ey_51 rd_top_51 rd_lit_0_0003)

text \<open>
  Claim C8, as the code has it. For a steel material with \<open>Fy > 0\<close> and \<open>Es > 0\<close>,
  \<open>get_stress\<close> returns one stress per strain, each within \<open>max Fy top\<close> of zero,
  where \<open>top = rd (ey * Es)\<close> is the stress of the elastic branch at the yield strain.
  When \<open>top \<le> Fy\<close>, which holds when \<open>Fy\<close> is a binary64 value and the quotient
  \<open>Fy / Es\<close> is not rounded up, it is non-decreasing (a sorted strain array gives a
  sorted stress array) and every output lies in \<open>[-Fy, Fy]\<close>. When \<open>top > Fy\<close> it is
  not: the stress at the strain \<open>ey\<close> is \<open>top\<close>, and it is \<open>Fy\<close> at every larger
  strain. The stress at strain 0 is 0 unless \<open>Fy / Es\<close> underflows to zero; for
  \<open>Fy = 60\<close>, \<open>Es = 29000\<close> the strain array \<open>[-0.01, 0, 0.00207, 0.05]\<close> yields the
  stresses \<open>[-60, 0, 60, 60]\<close>.
\<close>

theorem steel_get_stress_rounded:
  assumes "0 < Fy mat" "0 < Es mat"
  shows "(\<forall>strain. \<exists>stress. steel_get_stress mat strain = Inr stress \<and> length stress = length strain
              \<and> (\<forall>v\<in>set stress. - max (Fy mat) (elastic_top mat) \<le> v
                                  \<and> v \<le> max (Fy mat) (elastic_top mat))
              \<and> (elastic_top mat \<le> Fy mat \<longrightarrow>
                    (\<forall>v\<in>set stress. - Fy mat \<le> v \<and> v \<le> Fy mat)
                    \<and> (sorted strain \<longrightarrow> sorted stress)))
       \<and> (elastic_top mat \<le> Fy mat \<longrightarrow>
            (\<forall>s1 s2. s1 \<le> s2 \<longrightarrow> (\<exists>a b. steel_get_stress mat [s1, s2] = Inr [a, b] \<and> a \<le> b)))
       \<and> (Fy mat < elastic_top mat \<longrightarrow>
            (\<forall>s. rd (Fy mat / Es mat) < s \<longrightarrow>
               steel_get_stress mat [rd (Fy mat / Es mat), s] = Inr [elastic_top mat, Fy mat]))
       \<and> (rd (Fy mat) = Fy mat \<and> rd (Fy mat / Es mat) \<le> Fy mat / Es mat \<longrightarrow> elastic_top mat \<le> Fy mat)
       \<and> steel_get_stress mat [0] = Inr [if 0 < rd (Fy mat / Es mat) then 0 else - Fy mat]
       \<and> steel_get_stress \<lparr>Fy = 60, Es = 29000\<rparr> [- rd 0.01, 0, rd 0.00207, rd 0.05]
           = Inr [- 60, 0, 60, 60]"
proof -
  let ?f = "stress_law (Steel mat)"
  have nz: "Es mat \<noteq> 0" using assms(2) by simp
  note val = steel_get_stress_law[OF nz]
  have c1: "\<exists>stress. steel_get_stress mat strain = Inr stress \<and> length stress = length strain
              \<and> (\<forall>v\<in>set stress. - max (Fy mat) (elastic_top mat) \<le> v
                                  \<and> v \<le> max (Fy mat) (elastic_top mat))
              \<and> (elastic_top mat \<le> Fy mat \<longrightarrow>
                    (\<forall>v\<in>set stress. - Fy mat \<le> v \<and> v \<le> Fy mat)
                    \<and> (sorted strain \<longrightarrow> sorted stress))" for strain
  proof -
    have srt: "sorted (map ?f strain)" if "elastic_top mat \<le> Fy mat" "sorted strain"
      using that(2) steel_law_mono[OF assms that(1)] by (induction strain) auto
    have bnd: "- Fy mat \<le> ?f v \<and> ?f v \<le> Fy mat" if "elastic_top mat \<le> Fy mat" for v
      using steel_law_bounds[OF assms, of v] that by (simp add: max_def)
    show ?thesis using steel_law_bounds[OF assms] srt bnd by (auto simp: val)
  qed
  have c2: "elastic_top mat \<le> Fy mat \<longrightarrow>
            (\<forall>s1 s2. s1 \<le> s2 \<longrightarrow> (\<exists>a b. steel_get_stress mat [s1, s2] = Inr [a, b] \<and> a \<le> b))"
    unfolding val using steel_law_mono[OF assms] by simp
  have c3: "Fy mat < elastic_top mat \<longrightarrow>
            (\<forall>s. rd (Fy mat / Es mat) < s \<longrightarrow>
               steel_get_stress mat [rd (Fy mat / Es mat), s] = Inr [elastic_top mat, Fy mat])"
  proof (intro impI allI)
    fix s
    assume top: "Fy mat < elastic_top mat" and s: "rd (Fy mat / Es mat) < s"
    have "rd (Fy mat / Es mat) \<noteq> 0"
    proof
      assume "rd (Fy mat / Es mat) = 0"
      then have "elastic_top mat = 0" by (simp add: elastic_top_def rd_0)
      then show False using assms(1) top by simp
    qed
    then have pos: "0 < rd (Fy mat / Es mat)" using yield_nonneg[OF assms] by simp
    have "?f (rd (Fy mat / Es mat)) = elastic_top mat"
      using pos by (simp add: stress_law_def elastic_top_def)
    moreover have "?f s = Fy mat" using pos s by (simp add: stress_law_def)
    ultimately show "steel_get_stress mat [rd (Fy mat / Es mat), s] = Inr [elastic_top mat, Fy mat]"
      unfolding val by simp
  qed
  have c4: "rd (Fy mat) = Fy mat \<and> rd (Fy mat / Es mat) \<le> Fy mat / Es mat \<longrightarrow> elastic_top mat \<le> Fy mat"
    using elastic_top_le[OF assms(2)] by blast
  have c5: "steel_get_stress mat [0] = Inr [if 0 < rd (Fy mat / Es mat) then 0 else - Fy mat]"
    unfolding val by (simp add: steel_law_zero[OF assms])
  have c6: "steel_get_stress \<lparr>Fy = 60, Es = 29000\<rparr> [- rd 0.01, 0, rd 0.00207, rd 0.05]
           = Inr [- 60, 0, 60, 60]"
    by (simp add: steel_stress_def ey_def rd_ey_60 rd_lit_0_01 rd_lit_0_00207 rd_lit_0_05 rd_0)
  from c1 c2 c3 c4 c5 c6 show ?thesis by blast
qed

theorem steel_get_stress_rounded_witness:
  "(0::real) < 60 \<and> (0::real) < 29000
   \<and> elastic_top \<lparr>Fy = 60, Es = 29000\<rparr> \<le> 60
   \<and> (\<exists>a b. steel_get_stress \<lparr>Fy = 60, Es = 29000\<rparr> [rd 0.001, rd 0.002] = Inr [a, b] \<and> a \<le> b)
   \<and> steel_get_stress \<lparr>Fy = 60, Es = 29000\<rparr> [0] = Inr [0]
   \<and> (0::real) < 51 \<and> (0::real) < 200000
   \<and> 51 < elastic_top \<lparr>Fy = 51, Es = 200000\<rparr>
   \<and> rd (51 / 200000) < rd 0.0003
   \<and> steel_get_stress \<lparr>Fy = 51, Es = 200000\<rparr> [rd (51 / 200000), rd 0.0003]
       = Inr [elastic_top \<lparr>Fy = 51, Es = 200000\<rparr>, 51]"
proof -
  have top: "elastic_top \<lparr>Fy = 60, Es = 29000\<rparr> \<le> 60"
    by (simp add: elastic_top_def rd_ey_60 rd_top_60)
  have le: "rd 0.001 \<le> rd 0.002" by (intro rd_mono) simp
  have pos: "0 < rd (60 / 29000)" by (simp add: rd_ey_60)
  have top51: "51 < elastic_top \<lparr>Fy = 51, Es = 200000\<rparr>"
    by (simp add: elastic_top_def rd_ey_51 rd_top_51)
  have lt: "rd (51 / 200000) < rd 0.0003" by (simp add: rd_ey_51 rd_lit_0_0003)
  note i60 = steel_get_stress_rounded [of "\<lparr>Fy = 60, Es = 29000\<rparr>"]
  note i51 = steel_get_stress_rounded [of "\<lparr>Fy = 51, Es = 200000\<rparr>"]
  have a: "\<exists>a b. steel_get_stress \<lparr>Fy = 60, Es = 29000\<rparr> [rd 0.001, rd 0.002] = Inr [a, b] \<and> a \<le> b"
    using i60 top le by simp
  have b: "steel_get_stress \<lparr>Fy = 60, Es = 29000\<rparr> [0] = Inr [0]"
    using i60 pos by simp
  have c: "steel_get_stress \<lparr>Fy = 51, Es = 200000\<rparr> [rd (51 / 200000), rd 0.0003]
       = Inr [elastic_top \<lparr>Fy = 51, Es = 200000\<rparr>, 51]"
    using i51 top51 lt by simp
  show ?thesis using top a b top51 lt c by simp
qed

section \<open>The stress-block factor \<open>beta1\<close>\<close>

lemma lower_units_examples:
  "lower ''US'' = ''us''" "lower ''us'' = ''us''" "lower ''SI'' = ''si''" "lower ''si'' = ''si''"
  by (simp_all add: lower_def lower_char_def)

text \<open>The middle branch of each table decreases with \<open>fc\<close>: every rounding is monotone.\<close>

lemma us_mid_antimono:
  assumes "a \<le> b"
  shows "rd (rd 0.85 - rd (rd 0.05 * rd (b - 4))) \<le> rd (rd 0.85 - rd (rd 0.05 * rd (a - 4)))"
proof -
  have c: "0 \<le> rd 0.05" by (intro rd_nonneg) simp
  have "rd (a - 4) \<le> rd (b - 4)" using assms by (intro rd_mono) simp
  then have "rd 0.05 * rd (a - 4) \<le> rd 0.05 * rd (b - 4)" using c by (rule mult_left_mono)
  then have "rd (rd 0.05 * rd (a - 4)) \<le> rd (rd 0.05 * rd (b - 4))" by (rule rd_mono)
  then show ?thesis by (intro rd_mono) simp
qed

lemma si_mid_antimono:
  assumes "a \<le> b"
  shows "rd (rd 0.85 - rd (rd (rd 0.05 * rd (b - 28)) / 7))
       \<le> rd (rd 0.85 - rd (rd (rd 0.05 * rd (a - 28)) / 7))"
proof -
  have c: "0 \<le> rd 0.05" by (intro rd_nonneg) simp
  have "rd (a - 28) \<le> rd (b - 28)" using assms by (intro rd_mono) simp
  then have "rd 0.05 * rd (a - 28) \<le> rd 0.05 * rd (b - 28)" using c by (rule mult_left_mono)
  then have "rd (rd 0.05 * rd (a - 28)) \<le> rd (rd 0.05 * rd (b - 28))" by (rule rd_mono)
  then have "rd (rd 0.05 * rd (a - 28)) / 7 \<le> rd (rd 0.05 * rd (b - 28)) / 7" by simp
  then have "rd (rd (rd 0.05 * rd (a - 28)) / 7) \<le> rd (rd (rd 0.05 * rd (b - 28)) / 7)"
    by (rule rd_mono)
  then show ?thesis by (intro rd_mono) simp
qed

lemma us_mid_4: "rd (rd 0.85 - rd (rd 0.05 * rd (4 - 4))) = rd 0.85"
  by (simp add: rd_0 rd_lit_0_85 rd_d85)

lemma us_mid_8:
  "rd (rd 0.85 - rd (rd 0.05 * rd (8 - 4))) = 1463669878895411 / 2251799813685248"
  by (simp add: rd_4 rd_lit_0_85 rd_lit_0_05 rd_us_prod_8 rd_us_8)

lemma si_mid_28: "rd (rd 0.85 - rd (rd (rd 0.05 * rd (28 - 28)) / 7)) = rd 0.85"
  by (simp add: rd_0 rd_lit_0_85 rd_d85)

lemma si_mid_55:
  "rd (rd 0.85 - rd (rd (rd 0.05 * rd (55 - 28)) / 7)) = 5919016653115509 / 9007199254740992"
  by (simp add: rd_27 rd_lit_0_85 rd_lit_0_05 rd_si_prod_55 rd_si_quot_55 rd_si_55)

lemma beta1_us_5: "beta1_us 5 = 7205759403792793 / 9007199254740992"
  by (simp add: beta1_us_def rd_1 rd_lit_0_85 rd_lit_0_05 rd_d05 rd_us_5)

lemma beta1_us_8: "beta1_us 8 = 1463669878895411 / 2251799813685248"
  using us_mid_8 by (simp add: beta1_us_def)

lemma beta1_si_55: "beta1_si 55 = 5919016653115509 / 9007199254740992"
  using si_mid_55 by (simp add: beta1_si_def)

lemma beta1_us_range:
  "1463669878895411 / 2251799813685248 \<le> beta1_us f \<and> beta1_us f \<le> rd 0.85"
proof -
  consider "f \<le> 4" | "4 < f" "f \<le> 8" | "8 < f" by linarith
  then show ?thesis
  proof cases
    case 1
    then show ?thesis by (simp add: beta1_us_def rd_lit_0_85)
  next
    case 2
    have "rd (rd 0.85 - rd (rd 0.05 * rd (8 - 4))) \<le> beta1_us f"
      using 2 us_mid_antimono[of f 8] by (simp add: beta1_us_def)
    moreover have "beta1_us f \<le> rd (rd 0.85 - rd (rd 0.05 * rd (4 - 4)))"
      using 2 us_mid_antimono[of 4 f] by (simp add: beta1_us_def)
    ultimately show ?thesis unfolding us_mid_4 us_mid_8 by simp
  next
    case 3
    then show ?thesis by (simp add: beta1_us_def rd_lit_0_85 rd_lit_0_65)
  qed
qed

lemma beta1_si_range: "rd 0.65 \<le> beta1_si f \<and> beta1_si f \<le> rd 0.85"
proof -
  consider "f \<le> 28" | "28 < f" "f \<le> 55" | "55 < f" by linarith
  then show ?thesis
  proof cases
    case 1
    then show ?thesis by (simp add: beta1_si_def rd_lit_0_85 rd_lit_0_65)
  next
    case 2
    have "rd (rd 0.85 - rd (rd (rd 0.05 * rd (55 - 28)) / 7)) \<le> beta1_si f"
      using 2 si_mid_antimono[of f 55] by (simp add: beta1_si_def)
    moreover have "beta1_si f \<le> rd (rd 0.85 - rd (rd (rd 0.05 * rd (28 - 28)) / 7))"
      using 2 si_mid_antimono[of 28 f] by (simp add: beta1_si_def)
    moreover have "rd 0.65 \<le> (5919016653115509 / 9007199254740992 :: real)"
      by (simp add: rd_lit_0_65)
    ultimately show ?thesis unfolding si_mid_28 si_mid_55 by simp
  next
    case 3
    then show ?thesis by (simp add: beta1_si_def rd_lit_0_85 rd_lit_0_65)
  qed
qed

lemma beta1_us_mono:
  assumes "f \<le> g" "g \<le> 8"
  shows "beta1_us g \<le> beta1_us f"
proof -
  consider "g \<le> 4" | "f \<le> 4" "4 < g" | "4 < f" by linarith
  then show ?thesis
  proof cases
    case 1
    then show ?thesis using assms by (simp add: beta1_us_def)
  next
    case 2
    then have "beta1_us f = rd 0.85" by (simp add: beta1_us_def)
    then show ?thesis using beta1_us_range[of g] by simp
  next
    case 3
    then show ?thesis using assms us_mid_antimono[of f g] by (simp add: beta1_us_def)
  qed
qed

lemma beta1_si_mono:
  assumes "f \<le> g"
  shows "beta1_si g \<le> beta1_si f"
proof -
  consider "f \<le> 28" | "55 < g" | "28 < f" "g \<le> 55" by linarith
  then show ?thesis
  proof cases
    case 1
    then have "beta1_si f = rd 0.85" by (simp add: beta1_si_def)
    then show ?thesis using beta1_si_range[of g] by simp
  next
    case 2
    then have "beta1_si g = rd 0.65" by (simp add: beta1_si_def)
    then show ?thesis using beta1_si_range[of f] by simp
  next
    case 3
    then show ?thesis using assms si_mid_antimono[of f g] by (simp add: beta1_si_def)
  qed
qed

lemma beta1_si_jump: "\<not> isCont beta1_si 55"
proof
  assume "isCont beta1_si 55"
  then have "\<forall>r>0. \<exists>s>0. \<forall>x. x \<noteq> 55 \<and> norm (x - 55) < s \<longrightarrow> norm (beta1_si x - beta1_si 55) < r"
    by (simp add: isCont_def LIM_eq)
  from this[rule_format, of "0.005"]
  obtain s where s: "0 < s" "\<forall>x. x \<noteq> 55 \<and> norm (x - 55) < s \<longrightarrow> norm (beta1_si x - beta1_si 55) < 0.005"
    by auto
  have "norm (beta1_si (55 + s / 2) - beta1_si 55) < 0.005"
    using s by simp
  moreover have "beta1_si (55 + s / 2) = 5854679515581645 / 9007199254740992"
    using s(1) by (simp add: beta1_si_def rd_lit_0_65)
  ultimately show False by (simp add: beta1_si_55)
qed

text \<open>
  Claim C7 as stated fails. For US units and \<open>fc = 8\<close> the code returns
  \<open>0.85 - 0.05 * 4 = 0.6499999999999999\<close>, which is below the binary64 value of 0.65 and
  below \<open>beta1\<close> at \<open>fc = 8.5\<close>: the value is outside \<open>[0.65, 0.85]\<close> and \<open>beta1\<close>
  increases from \<open>fc = 8\<close> to \<open>fc = 8.5\<close>. For US units and \<open>fc = 5\<close> it returns
  \<open>0.7999999999999999\<close>, below the binary64 value of 0.80. For SI units \<open>beta1\<close> is not
  continuous in \<open>fc\<close>: at \<open>fc = 55\<close> it is \<open>0.6571428571428571\<close> and it is 0.65 just above.
\<close>

theorem beta1_not_clipped_not_continuous:
  "projr (beta1 \<lparr>fc = 8, units = ''US''\<rparr>) < rd 0.65
   \<and> projr (beta1 \<lparr>fc = 8, units = ''US''\<rparr>) < projr (beta1 \<lparr>fc = 17 / 2, units = ''US''\<rparr>)
   \<and> projr (beta1 \<lparr>fc = 5, units = ''US''\<rparr>) < rd 0.80
   \<and> \<not> continuous_on UNIV (\<lambda>f. projr (beta1 \<lparr>fc = f, units = ''SI''\<rparr>))"
proof -
  have c1: "projr (beta1 \<lparr>fc = 8, units = ''US''\<rparr>) < rd 0.65"
    by (simp add: beta1_def lower_units_examples beta1_us_8 rd_lit_0_65)
  have c2: "projr (beta1 \<lparr>fc = 8, units = ''US''\<rparr>) < projr (beta1 \<lparr>fc = 17 / 2, units = ''US''\<rparr>)"
    by (simp add: beta1_def lower_units_examples beta1_us_8) (simp add: beta1_us_def rd_lit_0_65)
  have c3: "projr (beta1 \<lparr>fc = 5, units = ''US''\<rparr>) < rd 0.80"
    by (simp add: beta1_def lower_units_examples beta1_us_5 rd_lit_0_8)
  have c4: "\<not> continuous_on UNIV (\<lambda>f. projr (beta1 \<lparr>fc = f, units = ''SI''\<rparr>))"
  proof
    assume "continuous_on UNIV (\<lambda>f. projr (beta1 \<lparr>fc = f, units = ''SI''\<rparr>))"
    moreover have "(\<lambda>f. projr (beta1 \<lparr>fc = f, units = ''SI''\<rparr>)) = beta1_si"
      by (rule ext) (simp add: beta1_def lower_units_examples)
    ultimately have "isCont beta1_si 55"
      by (simp add: continuous_on_eq_continuous_at)
    then show False using beta1_si_jump by simp
  qed
  from c1 c2 c3 c4 show ?thesis by blast
qed

text \<open>
  Claim C7, as the code has it. For \<open>units\<close> equal to US up to case, \<open>beta1\<close> lies
  between \<open>0.6499999999999999\<close> (its value at \<open>fc = 8\<close>) and the binary64 value of 0.85,
  it is non-increasing in \<open>fc\<close> for \<open>fc \<le> 8\<close>, and it is the binary64 value of 0.65
  for \<open>fc > 8\<close>; for \<open>fc = 5\<close> it is \<open>0.7999999999999999\<close>. For \<open>units\<close> equal to SI
  up to case, \<open>beta1\<close> is a non-increasing function of \<open>fc\<close> with values between the
  binary64 values of 0.65 and 0.85; it is \<open>0.6571428571428571\<close> at \<open>fc = 55\<close> and the
  binary64 value of 0.65 for \<open>fc > 55\<close>. For any other unit-system string it raises a
  ValueError naming the units.
\<close>

theorem beta1_rounded_table:
  "(lower u = ''us'' \<longrightarrow>
      (\<exists>b. beta1 \<lparr>fc = f, units = u\<rparr> = Inr b
          \<and> 1463669878895411 / 2251799813685248 \<le> b \<and> b \<le> rd 0.85)
      \<and> (\<forall>g. f \<le> g \<and> g \<le> 8 \<longrightarrow>
            projr (beta1 \<lparr>fc = g, units = u\<rparr>) \<le> projr (beta1 \<lparr>fc = f, units = u\<rparr>))
      \<and> (8 < f \<longrightarrow> beta1 \<lparr>fc = f, units = u\<rparr> = Inr (rd 0.65)))
   \<and> (lower u = ''si'' \<longrightarrow>
      (\<exists>b. beta1 \<lparr>fc = f, units = u\<rparr> = Inr b \<and> rd 0.65 \<le> b \<and> b \<le> rd 0.85)
      \<and> (\<forall>g. f \<le> g \<longrightarrow>
            projr (beta1 \<lparr>fc = g, units = u\<rparr>) \<le> projr (beta1 \<lparr>fc = f, units = u\<rparr>))
      \<and> (55 < f \<longrightarrow> beta1 \<lparr>fc = f, units = u\<rparr> = Inr (rd 0.65)))
   \<and> beta1 \<lparr>fc = 5, units = ''US''\<rparr> = Inr (7205759403792793 / 9007199254740992)
   \<and> beta1 \<lparr>fc = 8, units = ''US''\<rparr> = Inr (1463669878895411 / 2251799813685248)
   \<and> beta1 \<lparr>fc = 55, units = ''SI''\<rparr> = Inr (5919016653115509 / 9007199254740992)
   \<and> (lower u \<noteq> ''us'' \<and> lower u \<noteq> ''si'' \<longrightarrow>
        beta1 \<lparr>fc = f, units = u\<rparr>
          = Inl (ValueError (''The given units ('' @ u @ '') is not supported yet'')))"
proof -
  have c1: "lower u = ''us'' \<longrightarrow>
      (\<exists>b. beta1 \<lparr>fc = f, units = u\<rparr> = Inr b
          \<and> 1463669878895411 / 2251799813685248 \<le> b \<and> b \<le> rd 0.85)
      \<and> (\<forall>g. f \<le> g \<and> g \<le> 8 \<longrightarrow>
            projr (beta1 \<lparr>fc = g, units = u\<rparr>) \<le> projr (beta1 \<lparr>fc = f, units = u\<rparr>))
      \<and> (8 < f \<longrightarrow> beta1 \<lparr>fc = f, units = u\<rparr> = Inr (rd 0.65))"
    using beta1_us_range[of f] beta1_us_mono[of f]
    by (auto simp: beta1_def beta1_us_def)
  have c2: "lower u = ''si'' \<longrightarrow>
      (\<exists>b. beta1 \<lparr>fc = f, units = u\<rparr> = Inr b \<and> rd 0.65 \<le> b \<and> b \<le> rd 0.85)
      \<and> (\<forall>g. f \<le> g \<longrightarrow>
            projr (beta1 \<lparr>fc = g, units = u\<rparr>) \<le> projr (beta1 \<lparr>fc = f, units = u\<rparr>))
      \<and> (55 < f \<longrightarrow> beta1 \<lparr>fc = f, units = u\<rparr> = Inr (rd 0.65))"
    using beta1_si_range[of f] beta1_si_mono[of f]
    by (auto simp: beta1_def beta1_si_def)
  have c3: "beta1 \<lparr>fc = 5, units = ''US''\<rparr> = Inr (7205759403792793 / 9007199254740992)"
    by (simp add: beta1_def lower_units_examples beta1_us_5)
  have c4: "beta1 \<lparr>fc = 8, units = ''US''\<rparr> = Inr (1463669878895411 / 2251799813685248)"
    by (simp add: beta1_def lower_units_examples beta1_us_8)
  have c5: "beta1 \<lparr>fc = 55, units = ''SI''\<rparr> = Inr (5919016653115509 / 9007199254740992)"
    by (simp add: beta1_def lower_units_examples beta1_si_55)
  have c6: "lower u \<noteq> ''us'' \<and> lower u \<noteq> ''si'' \<longrightarrow>
        beta1 \<lparr>fc = f, units = u\<rparr>
          = Inl (ValueError (''The given units ('' @ u @ '') is not supported yet''))"
    by (simp add: beta1_def)
  from c1 c2 c3 c4 c5 c6 show ?thesis by blast
qed

theorem beta1_rounded_table_witness:
  "lower ''US'' = ''us''
   \<and> projr (beta1 \<lparr>fc = 6, units = ''US''\<rparr>) \<le> projr (beta1 \<lparr>fc = 5, units = ''US''\<rparr>)
   \<and> beta1 \<lparr>fc = 9, units = ''US''\<rparr> = Inr (rd 0.65)
   \<and> lower ''SI'' = ''si''
   \<and> projr (beta1 \<lparr>fc = 56, units = ''SI''\<rparr>) \<le> projr (beta1 \<lparr>fc = 55, units = ''SI''\<rparr>)
   \<and> beta1 \<lparr>fc = 56, units = ''SI''\<rparr> = Inr (rd 0.65)
   \<and> beta1 \<lparr>fc = 5, units = ''mm''\<rparr> = Inl (ValueError ''The given units (mm) is not supported yet'')"
proof -
  have l: "lower ''US'' = ''us''" "lower ''SI'' = ''si''"
      "lower ''mm'' \<noteq> ''us'' \<and> lower ''mm'' \<noteq> ''si''"
    by (simp_all add: lower_def lower_char_def)
  note us5 = beta1_rounded_table [of "''US''" 5, THEN conjunct1, THEN mp, OF l(1)]
  note us9 = beta1_rounded_table [of "''US''" 9, THEN conjunct1, THEN mp, OF l(1)]
  note si55 = beta1_rounded_table [of "''SI''" 55, THEN conjunct2, THEN conjunct1, THEN mp, OF l(2)]
  note si56 = beta1_rounded_table [of "''SI''" 56, THEN conjunct2, THEN conjunct1, THEN mp, OF l(2)]
  have a: "projr (beta1 \<lparr>fc = 6, units = ''US''\<rparr>) \<le> projr (beta1 \<lparr>fc = 5, units = ''US''\<rparr>)"
    using us5[THEN conjunct2, THEN conjunct1, rule_format, of 6] by simp
  have b: "beta1 \<lparr>fc = 9, units = ''US''\<rparr> = Inr (rd 0.65)"
    using us9[THEN conjunct2, THEN conjunct2] by simp
  have c: "projr (beta1 \<lparr>fc = 56, units = ''SI''\<rparr>) \<le> projr (beta1 \<lparr>fc = 55, units = ''SI''\<rparr>)"
    using si55[THEN conjunct2, THEN conjunct1, rule_format, of 56] by simp
  have d: "beta1 \<lparr>fc = 56, units = ''SI''\<rparr> = Inr (rd 0.65)"
    using si56[THEN conjunct2, THEN conjunct2] by simp
  have e: "beta1 \<lparr>fc = 5, units = ''mm''\<rparr>
      = Inl (ValueError ''The given units (mm) is not supported yet'')"
    using beta1_rounded_table [of "''mm''" 5] l(3) by simp
  from l(1) a b l(2) c d e show ?thesis by (intro conjI)
qed

section \<open>The strain-compatibility engine\<close>













lemma length_fiber_strains [simp]:
  "length (fiber_strains self xpt ypt angle yc) = length (fibers self)"
  by (simp add: fiber_strains_def)




















section \<open>The retry ladder\<close>











section \<open>The monitors\<close>

lemma prop_monitors_order:
  "fst (prop_monitors cfg mx res)
     = first_monitor
         [(case percent_load_drop_limit cfg of
             None \<Rightarrow> False
           | Some pl \<Rightarrow> last (applied_axial_load res)
                          < (1 - pl) * max mx (last (applied_axial_load res)),
           ''Load Drop Limit Reached''),
          (falls_below (lowest_eigenvalue res) (eigenvalue_limit cfg), ''Eigenvalue Limit Reached''),
          (falls_below (maximum_concrete_compression_strain res) (concrete_strain_limit cfg),
           ''Extreme Compressive Concrete Fiber Strain Limit Reached''),
          (rises_above (maximum_steel_strain res) (steel_strain_limit cfg),
           ''Extreme Steel Fiber Strain Limit Reached'')]"
  by (simp add: prop_monitors_def falls_below_def rises_above_def Let_def split: option.splits)

lemma nonprop_monitors_order:
  "fst (nonprop_monitors env cfg lg mx res)
     = first_monitor
         [(case percent_load_drop_limit cfg of
             None \<Rightarrow> False
           | Some pl \<Rightarrow> ops_getTime env (lg @ [GetTime])
                          < (1 - pl) * max mx (ops_getTime env (lg @ [GetTime])),
           ''Load Drop Limit Reached''),
          (falls_below (lowest_eigenvalue res) (map_option (\<lambda>el. 0) (eigenvalue_limit cfg)),
           ''Eigenvalue Limit Reached''),
          (falls_below (maximum_concrete_compression_strain res) (concrete_strain_limit cfg),
           ''Extreme Compressive Concrete Fiber Strain Limit Reached''),
          (rises_above (maximum_steel_strain res) (steel_strain_limit cfg),
           ''Extreme Steel Fiber Strain Limit Reached'')]"
  by (simp add: nonprop_monitors_def falls_below_def rises_above_def Let_def split: option.splits)

text \<open>
  Claim C2 at an input where the code departs from it: on the non-proportional path, with
  the eigenvalue threshold 1 and the lowest eigenvalue 1/2 just recorded, no monitor
  fires and the loop goes on to the next increment, while the monitors of the
  proportional path end the path with \<open>Eigenvalue Limit Reached\<close> for the same
  configuration and record.
\<close>

theorem nonprop_eigenvalue_ignores_limit:
  "nonprop_monitors half_eigen_env unit_eigen_limit [] 0
       (initial_results\<lparr>lowest_eigenvalue := [1 / 2],
          maximum_concrete_compression_strain := [0], maximum_steel_strain := [0]\<rparr>)
     = (None, [], 0)
   \<and> prop_monitors unit_eigen_limit 0
       (initial_results\<lparr>lowest_eigenvalue := [1 / 2],
          maximum_concrete_compression_strain := [0], maximum_steel_strain := [0]\<rparr>)
     = (Some ''Eigenvalue Limit Reached'', 0)
   \<and> (case nonprop_body half_eigen_env unit_eigen_limit ([], 1, 0, initial_results) of
        Inl fin \<Rightarrow> False
      | Inr (lg, dif, mx, res) \<Rightarrow> lowest_eigenvalue res = [1 / 2] \<and> exit_message res = None)
   \<and> (case prop_body half_eigen_env unit_eigen_limit ([], 1, 0, initial_results) of
        Inl (lg, res) \<Rightarrow>
          lowest_eigenvalue res = [1 / 2] \<and> exit_message res = Some ''Eigenvalue Limit Reached''
      | Inr st \<Rightarrow> False)"
proof -
  have a: "nonprop_monitors half_eigen_env unit_eigen_limit [] 0
       (initial_results\<lparr>lowest_eigenvalue := [1 / 2],
          maximum_concrete_compression_strain := [0], maximum_steel_strain := [0]\<rparr>)
     = (None, [], 0)"
    by (simp add: nonprop_monitors_def unit_eigen_limit_def default_config_def initial_results_def)
  have b: "prop_monitors unit_eigen_limit 0
       (initial_results\<lparr>lowest_eigenvalue := [1 / 2],
          maximum_concrete_compression_strain := [0], maximum_steel_strain := [0]\<rparr>)
     = (Some ''Eigenvalue Limit Reached'', 0)"
    by (simp add: prop_monitors_def unit_eigen_limit_def default_config_def initial_results_def)
  have c: "case nonprop_body half_eigen_env unit_eigen_limit ([], 1, 0, initial_results) of
        Inl fin \<Rightarrow> False
      | Inr (lg, dif, mx, res) \<Rightarrow> lowest_eigenvalue res = [1 / 2] \<and> exit_message res = None"
    by (simp add: nonprop_body_def nonprop_attempts_def do_analyze_def record_lateral_def
        nonprop_monitors_def half_eigen_env_def scripted_env_def analyze_count_def
        unit_eigen_limit_def default_config_def initial_results_def Let_def)
  have d: "case prop_body half_eigen_env unit_eigen_limit ([], 1, 0, initial_results) of
        Inl (lg, res) \<Rightarrow>
          lowest_eigenvalue res = [1 / 2] \<and> exit_message res = Some ''Eigenvalue Limit Reached''
      | Inr st \<Rightarrow> False"
    by (simp add: prop_body_def prop_attempts_def do_analyze_def record_prop_def
        prop_monitors_def half_eigen_env_def scripted_env_def analyze_count_def
        unit_eigen_limit_def default_config_def initial_results_def Let_def)
  show ?thesis using a b c d by (intro conjI)
qed

section \<open>The limit-point search\<close>

lemma py_max_Max: "xs \<noteq> [] \<Longrightarrow> py_max xs = Inr (Max (set xs))"
  by (cases xs) (simp_all add: py_max_def Max.set_eq_fold del: set_simps)

lemma select_then_interpolate:
  "(case (if A then X1 else if B then X2 else if C then X3 else if D then X4
          else if E then X5 else Inl err) of
      Inl e \<Rightarrow> Inl e
    | Inr r \<Rightarrow> F r)
   = (if A then (case X1 of Inl e \<Rightarrow> Inl e | Inr r \<Rightarrow> F r)
      else if B then (case X2 of Inl e \<Rightarrow> Inl e | Inr r \<Rightarrow> F r)
      else if C then (case X3 of Inl e \<Rightarrow> Inl e | Inr r \<Rightarrow> F r)
      else if D then (case X4 of Inl e \<Rightarrow> Inl e | Inr r \<Rightarrow> F r)
      else if E then (case X5 of Inl e \<Rightarrow> Inl e | Inr r \<Rightarrow> F r)
      else Inl err)"
  by simp

lemma limit_point_from_eq:
  "(case call_find_limit_point_in_list env series target of
      Inl e \<Rightarrow> Inl e
    | Inr r \<Rightarrow> (case r of (ind, x) \<Rightarrow> interpolate_at env res ind x))
   = limit_point_from env res series target"
  by (simp add: call_find_limit_point_in_list_def limit_point_from_def interpolate_at_def
      split: option.splits)

lemma moment_limit_point_eq:
  "(case (case py_max (maximum_abs_moment res) of
            Inl err \<Rightarrow> Inl err
          | Inr mx \<Rightarrow> call_find_limit_point_in_list env (maximum_abs_moment res) (Some mx)) of
      Inl e \<Rightarrow> Inl e
    | Inr r \<Rightarrow> (case r of (ind, x) \<Rightarrow> interpolate_at env res ind x))
   = moment_limit_point env res"
  by (simp add: moment_limit_point_def limit_point_from_eq[symmetric] split: sum.splits)

lemma find_limit_point_branches:
  assumes "exit_message res = Some msg"
  shows "find_limit_point env cfg res =
     (if sublist ''Analysis Failed'' msg then moment_limit_point env res
      else if sublist ''Eigenvalue Limit'' msg
        then limit_point_from env res (lowest_eigenvalue res) (eigenvalue_limit cfg)
      else if sublist ''Extreme Compressive Concrete Fiber Strain Limit Reached'' msg
        then limit_point_from env res (maximum_concrete_compression_strain res) (concrete_strain_limit cfg)
      else if sublist ''Extreme Steel Fiber Strain Limit Reached'' msg
        then limit_point_from env res (maximum_steel_strain res) (steel_strain_limit cfg)
      else if sublist ''Load Drop Limit Reached'' msg then moment_limit_point env res
      else Inl (Exception ''Unknown limit point''))"
  unfolding find_limit_point_def assms option.case select_then_interpolate
    limit_point_from_eq moment_limit_point_eq ..


lemma known_messages:
  "sublist ''Analysis Failed'' ''Analysis Failed''"
  "\<not> sublist ''Analysis Failed'' ''Eigenvalue Limit Reached''"
  "sublist ''Eigenvalue Limit'' ''Eigenvalue Limit Reached''"
  "\<not> sublist ''Analysis Failed'' ''Extreme Compressive Concrete Fiber Strain Limit Reached''"
  "\<not> sublist ''Eigenvalue Limit'' ''Extreme Compressive Concrete Fiber Strain Limit Reached''"
  "\<not> sublist ''Analysis Failed'' ''Extreme Steel Fiber Strain Limit Reached''"
  "\<not> sublist ''Eigenvalue Limit'' ''Extreme Steel Fiber Strain Limit Reached''"
  "\<not> sublist ''Extreme Compressive Concrete Fiber Strain Limit Reached''
       ''Extreme Steel Fiber Strain Limit Reached''"
  "\<not> sublist ''Analysis Failed'' ''Load Drop Limit Reached''"
  "\<not> sublist ''Eigenvalue Limit'' ''Load Drop Limit Reached''"
  "\<not> sublist ''Extreme Compressive Concrete Fiber Strain Limit Reached'' ''Load Drop Limit Reached''"
  "\<not> sublist ''Extreme Steel Fiber Strain Limit Reached'' ''Load Drop Limit Reached''"
  "sublist ''Load Drop Limit Reached'' ''Load Drop Limit Reached''"
  "sublist ''Analysis Failed'' ''Analysis Failed In Vertical Loading''"
  by (simp_all add: sublist_code)

lemma limit_point_from_fraction:
  assumes "limit_point_from env res series target = Inr res'"
  shows "\<exists>ind x. find_limit_point_in_list env series target = Some (ind, x)
           \<and> applied_axial_load_at_limit_point res'
               = interpolate_list env (applied_axial_load res) ind x
           \<and> maximum_abs_moment_at_limit_point res'
               = interpolate_list env (maximum_abs_moment res) ind x"
  using assms by (auto simp: limit_point_from_def split: option.splits)

lemma controller_messages_conditions:
  "list_all (\<lambda>(m, c). exit_condition_of m = Some c) controller_messages"
  by (simp add: controller_messages_def exit_condition_of_def known_messages)

lemma loop_break_messages:
  assumes "prop_body env cfg st = Inl (lg', res') \<or> nonprop_body env cfg st = Inl (lg', res')"
  shows "\<exists>m. exit_message res' = Some m \<and> m \<in> fst ` set controller_messages"
proof -
  have pm: "fst (prop_monitors cfg mx res) = Some m \<Longrightarrow> m \<in> fst ` set controller_messages"
    for mx res m
    by (auto simp: prop_monitors_def controller_messages_def Let_def
        split: prod.splits if_splits option.splits)
  have nm: "fst (nonprop_monitors env cfg lg mx res) = Some m \<Longrightarrow> m \<in> fst ` set controller_messages"
    for lg mx res m
    by (auto simp: nonprop_monitors_def controller_messages_def Let_def
        split: prod.splits if_splits option.splits)
  have af: "''Analysis Failed'' \<in> fst ` set controller_messages"
    by (simp add: controller_messages_def)
  obtain lg s mx res where st: "st = (lg, s, mx, res)" by (cases st) auto
  from assms show ?thesis
  proof
    assume h: "prop_body env cfg st = Inl (lg', res')"
    obtain ok lg1 lif1 where a: "prop_attempts env (try_smaller_steps cfg) lg s = (ok, lg1, lif1)"
      by (cases "prop_attempts env (try_smaller_steps cfg) lg s") auto
    show ?thesis
    proof (cases "ok = 0")
      case True
      obtain lg2 res2 where r: "record_prop env
          (lg1 @ [Algorithm Newton, Test (1 / 1000) 10, Integrator (LoadControl lif1)], res) = (lg2, res2)"
        by (cases "record_prop env
          (lg1 @ [Algorithm Newton, Test (1 / 1000) 10, Integrator (LoadControl lif1)], res)") auto
      obtain msg mx2 where m: "prop_monitors cfg mx res2 = (msg, mx2)"
        by (cases "prop_monitors cfg mx res2") auto
      from h obtain t where "msg = Some t" "res' = res2\<lparr>exit_message := Some t\<rparr>"
        unfolding st prop_body_def Let_def by (simp add: a r m True split: option.splits)
      then show ?thesis using pm[of mx res2 t] m by simp
    next
      case False
      from h have "res' = res\<lparr>exit_message := Some ''Analysis Failed''\<rparr>"
        unfolding st prop_body_def Let_def by (simp add: a False)
      then show ?thesis using af by simp
    qed
  next
    assume h: "nonprop_body env cfg st = Inl (lg', res')"
    obtain ok lg1 dif1 where a: "nonprop_attempts env (try_smaller_steps cfg) lg s = (ok, lg1, dif1)"
      by (cases "nonprop_attempts env (try_smaller_steps cfg) lg s") auto
    show ?thesis
    proof (cases "ok = 0")
      case True
      obtain lg2 res2 where r: "record_lateral env (arg_P cfg)
          (lg1 @ [Algorithm Newton, Test (1 / 1000) 10, Integrator (LoadControl dif1)], res) = (lg2, res2)"
        by (cases "record_lateral env (arg_P cfg)
          (lg1 @ [Algorithm Newton, Test (1 / 1000) 10, Integrator (LoadControl dif1)], res)") auto
      obtain msg lg3 mx2 where m: "nonprop_monitors env cfg lg2 mx res2 = (msg, lg3, mx2)"
        by (cases "nonprop_monitors env cfg lg2 mx res2") auto
      from h obtain t where "msg = Some t" "res' = res2\<lparr>exit_message := Some t\<rparr>"
        unfolding st nonprop_body_def Let_def by (simp add: a r m True split: option.splits)
      then show ?thesis using nm[of lg2 mx res2 t] m by simp
    next
      case False
      from h have "res' = res\<lparr>exit_message := Some ''Analysis Failed''\<rparr>"
        unfolding st nonprop_body_def Let_def by (simp add: a False)
      then show ?thesis using af by simp
    qed
  qed
qed

lemma limit_point_from_not_unknown:
  "limit_point_from env res series target \<noteq> Inl (Exception ''Unknown limit point'')"
  by (simp add: limit_point_from_def split: option.splits prod.splits)

lemma moment_limit_point_not_unknown:
  "moment_limit_point env res \<noteq> Inl (Exception ''Unknown limit point'')"
  using limit_point_from_not_unknown
  by (auto simp: moment_limit_point_def py_max_def split: sum.splits list.splits)

text \<open>
  Claim C3. Given the recorded series and an exit message, the limit-point search takes
  the maximum-absolute-moment series with its maximum as target for the conditions
  AnalysisFailed and LoadDropLimit, the lowest-eigenvalue series with the eigenvalue
  threshold for EigenvalueLimit, the concrete-compression-strain series with the concrete
  strain threshold for ConcreteStrainLimit, and the steel-strain series with the steel
  strain threshold for SteelStrainLimit; it then applies the same index and fraction to
  the applied-axial-load series and to the maximum-absolute-moment series. It raises
  \<open>Unknown limit point\<close> exactly when the message stands for none of the five
  conditions. Every message that the controller assigns stands for its condition.
\<close>

theorem find_limit_point_selection:
  assumes "exit_message res = Some msg"
  shows "find_limit_point env cfg res =
     (case exit_condition_of msg of
        Some AnalysisFailed \<Rightarrow> moment_limit_point env res
      | Some LoadDropLimit \<Rightarrow> moment_limit_point env res
      | Some EigenvalueLimit \<Rightarrow>
          limit_point_from env res (lowest_eigenvalue res) (eigenvalue_limit cfg)
      | Some ConcreteStrainLimit \<Rightarrow>
          limit_point_from env res (maximum_concrete_compression_strain res) (concrete_strain_limit cfg)
      | Some SteelStrainLimit \<Rightarrow>
          limit_point_from env res (maximum_steel_strain res) (steel_strain_limit cfg)
      | None \<Rightarrow> Inl (Exception ''Unknown limit point''))
   \<and> (find_limit_point env cfg res = Inl (Exception ''Unknown limit point'')
        \<longleftrightarrow> exit_condition_of msg = None)
   \<and> (maximum_abs_moment res \<noteq> [] \<longrightarrow>
        moment_limit_point env res
          = limit_point_from env res (maximum_abs_moment res) (Some (Max (set (maximum_abs_moment res)))))
   \<and> (\<forall>series target res'. limit_point_from env res series target = Inr res' \<longrightarrow>
        (\<exists>ind x. find_limit_point_in_list env series target = Some (ind, x)
           \<and> applied_axial_load_at_limit_point res'
               = interpolate_list env (applied_axial_load res) ind x
           \<and> maximum_abs_moment_at_limit_point res'
               = interpolate_list env (maximum_abs_moment res) ind x))
   \<and> list_all (\<lambda>(m, c). exit_condition_of m = Some c) controller_messages
   \<and> (\<forall>st lg' res'. prop_body env cfg st = Inl (lg', res') \<or> nonprop_body env cfg st = Inl (lg', res')
        \<longrightarrow> (\<exists>m. exit_message res' = Some m \<and> m \<in> fst ` set controller_messages))"
proof -
  note br = find_limit_point_branches[OF assms, of env cfg]
  have c1: "find_limit_point env cfg res =
     (case exit_condition_of msg of
        Some AnalysisFailed \<Rightarrow> moment_limit_point env res
      | Some LoadDropLimit \<Rightarrow> moment_limit_point env res
      | Some EigenvalueLimit \<Rightarrow>
          limit_point_from env res (lowest_eigenvalue res) (eigenvalue_limit cfg)
      | Some ConcreteStrainLimit \<Rightarrow>
          limit_point_from env res (maximum_concrete_compression_strain res) (concrete_strain_limit cfg)
      | Some SteelStrainLimit \<Rightarrow>
          limit_point_from env res (maximum_steel_strain res) (steel_strain_limit cfg)
      | None \<Rightarrow> Inl (Exception ''Unknown limit point''))"
    unfolding br exit_condition_of_def by simp
  have c2: "find_limit_point env cfg res = Inl (Exception ''Unknown limit point'')
        \<longleftrightarrow> exit_condition_of msg = None"
    unfolding c1
    using limit_point_from_not_unknown[of env res] moment_limit_point_not_unknown[of env res]
    by (auto split: option.splits exit_condition.splits)
  have c3: "maximum_abs_moment res \<noteq> [] \<longrightarrow>
        moment_limit_point env res
          = limit_point_from env res (maximum_abs_moment res) (Some (Max (set (maximum_abs_moment res))))"
    by (simp add: moment_limit_point_def py_max_Max)
  have c4: "\<forall>series target res'. limit_point_from env res series target = Inr res' \<longrightarrow>
        (\<exists>ind x. find_limit_point_in_list env series target = Some (ind, x)
           \<and> applied_axial_load_at_limit_point res'
               = interpolate_list env (applied_axial_load res) ind x
           \<and> maximum_abs_moment_at_limit_point res'
               = interpolate_list env (maximum_abs_moment res) ind x)"
    using limit_point_from_fraction by blast
  have c6: "\<forall>st lg' res'. prop_body env cfg st = Inl (lg', res') \<or> nonprop_body env cfg st = Inl (lg', res')
        \<longrightarrow> (\<exists>m. exit_message res' = Some m \<and> m \<in> fst ` set controller_messages)"
    using loop_break_messages by blast
  from c1 c2 c3 c4 controller_messages_conditions c6 show ?thesis by (intro conjI)
qed


theorem find_limit_point_selection_witness:
  "exit_message (initial_results\<lparr>applied_axial_load := [1, 2], maximum_abs_moment := [0, 0],
       lowest_eigenvalue := [1, - 1], exit_message := Some ''Eigenvalue Limit Reached''\<rparr>)
     = Some ''Eigenvalue Limit Reached''
   \<and> exit_condition_of ''Eigenvalue Limit Reached'' = Some EigenvalueLimit
   \<and> find_limit_point (scripted_env (\<lambda>k. 0)) default_config
        (initial_results\<lparr>applied_axial_load := [1, 2], maximum_abs_moment := [0, 0],
           lowest_eigenvalue := [1, - 1], exit_message := Some ''Eigenvalue Limit Reached''\<rparr>)
     = Inr (initial_results\<lparr>applied_axial_load := [1, 2], maximum_abs_moment := [0, 0],
              lowest_eigenvalue := [1, - 1], exit_message := Some ''Eigenvalue Limit Reached'',
              applied_axial_load_at_limit_point := Some 1,
              maximum_abs_moment_at_limit_point := Some 0\<rparr>)
   \<and> exit_condition_of ''Stopped'' = None
   \<and> find_limit_point (scripted_env (\<lambda>k. 0)) default_config
        (initial_results\<lparr>exit_message := Some ''Stopped''\<rparr>)
     = Inl (Exception ''Unknown limit point'')"
proof -
  let ?env = "scripted_env (\<lambda>k. 0)"
  let ?res = "initial_results\<lparr>applied_axial_load := [1, 2], maximum_abs_moment := [0, 0],
       lowest_eigenvalue := [1, - 1], exit_message := Some ''Eigenvalue Limit Reached''\<rparr>"
  have m1: "exit_message ?res = Some ''Eigenvalue Limit Reached''" by simp
  have m2: "exit_message (initial_results\<lparr>exit_message := Some ''Stopped''\<rparr>) = Some ''Stopped''"
    by simp
  have e1: "exit_condition_of ''Eigenvalue Limit Reached'' = Some EigenvalueLimit"
    by (simp add: exit_condition_of_def known_messages)
  have e2: "exit_condition_of ''Stopped'' = None"
    by (simp add: exit_condition_of_def sublist_code)
  have lp: "limit_point_from ?env ?res (lowest_eigenvalue ?res) (eigenvalue_limit default_config)
     = Inr (?res\<lparr>applied_axial_load_at_limit_point := Some 1,
                  maximum_abs_moment_at_limit_point := Some 0\<rparr>)"
    by (simp add: limit_point_from_def scripted_env_def interpolate_list_spec_def initial_results_def)
  have a: "find_limit_point ?env default_config ?res
     = Inr (?res\<lparr>applied_axial_load_at_limit_point := Some 1,
                  maximum_abs_moment_at_limit_point := Some 0\<rparr>)"
    using find_limit_point_selection[OF m1, of ?env default_config, THEN conjunct1] lp
    by (simp only: e1 option.case exit_condition.case)
  have b: "find_limit_point ?env default_config (initial_results\<lparr>exit_message := Some ''Stopped''\<rparr>)
     = Inl (Exception ''Unknown limit point'')"
    using find_limit_point_selection[OF m2, of ?env default_config, THEN conjunct1]
    by (simp only: e2 option.case)
  show ?thesis using m1 e1 a e2 b by (intro conjI)
qed

section \<open>The vertical-load phase of the non-proportional path\<close>

lemma record_vertical_lengths:
  "series_lengths (snd (record_vertical env (lg, res))) = map Suc (series_lengths res)"
  by (simp add: record_vertical_def series_lengths_def Let_def)

lemma record_vertical_limit_point:
  "no_limit_point (snd (record_vertical env (lg, res))) = no_limit_point res"
  by (simp add: record_vertical_def no_limit_point_def Let_def)

lemma vertical_loop_fails:
  assumes "vertical_fails_at env st k" "k \<le> n"
  shows "\<exists>lg res. vertical_loop env n st = Inl (lg, res)
     \<and> exit_message res = Some ''Analysis Failed In Vertical Loading''
     \<and> series_lengths res = map (\<lambda>l. l + (k - 1)) (series_lengths (snd st))
     \<and> no_limit_point res = no_limit_point (snd st)"
  using assms
proof (induction k arbitrary: st n)
  case 0
  then show ?case by simp
next
  case (Suc k)
  obtain lg res where st: "st = (lg, res)" by (cases st)
  obtain m where n: "n = Suc m" using Suc.prems(2) by (cases n) auto
  obtain ok lg' where an: "do_analyze env lg = (ok, lg')" by (cases "do_analyze env lg")
  show ?case
  proof (cases "k = 0")
    case True
    then have "ok \<noteq> 0" using Suc.prems(1) st an by simp
    then show ?thesis using st n an True
      by (simp add: series_lengths_def no_limit_point_def)
  next
    case False
    then have ok: "ok = 0"
      and rest: "vertical_fails_at env (record_vertical env (lg', res)) k"
      using Suc.prems(1) st an by simp_all
    have "k \<le> m" using Suc.prems(2) n by simp
    from Suc.IH[OF rest this]
    obtain lg2 res2 where
      r: "vertical_loop env m (record_vertical env (lg', res)) = Inl (lg2, res2)"
        "exit_message res2 = Some ''Analysis Failed In Vertical Loading''"
        "series_lengths res2
           = map (\<lambda>l. l + (k - 1)) (series_lengths (snd (record_vertical env (lg', res))))"
        "no_limit_point res2 = no_limit_point (snd (record_vertical env (lg', res)))"
      by blast
    have "vertical_loop env n st = Inl (lg2, res2)"
      using st n an ok r(1) by simp
    moreover have "series_lengths res2 = map (\<lambda>l. l + (Suc k - 1)) (series_lengths (snd st))"
      using r(3) False st by (simp add: record_vertical_lengths)
    moreover have "no_limit_point res2 = no_limit_point (snd st)"
      using r(4) st by (simp add: record_vertical_limit_point)
    ultimately show ?thesis using r(2) by blast
  qed
qed

lemma vertical_init_lengths:
  "series_lengths (snd (vertical_init env cfg lg)) = [1, 1, 1, 1, 1]"
  "no_limit_point (snd (vertical_init env cfg lg))"
  by (simp_all add: vertical_init_def record_vertical_def series_lengths_def no_limit_point_def
      initial_results_def Let_def)

lemma nonprop_vertical_failure:
  assumes "lower analysis_type = ''nonproportional_limit_point''"
    and "build_ops_model env lg0 = Inr lg1"
    and "vertical_fails_at env (vertical_init env cfg lg1) k"
    and "int k \<le> num_steps_vertical cfg"
  shows "\<exists>lg res. run_ops_analysis env analysis_type cfg lg0 = Some (Inr (lg, res))
     \<and> exit_message res = Some ''Analysis Failed In Vertical Loading''
     \<and> no_limit_point res
     \<and> series_lengths res = [k, k, k, k, k]"
proof -
  have kpos: "0 < k" using assms(3) by (cases k) simp_all
  then have nz: "num_steps_vertical cfg \<noteq> 0" using assms(4) by auto
  have le: "k \<le> nat (num_steps_vertical cfg)" using assms(4) by simp
  from vertical_loop_fails[OF assms(3) le]
  obtain lg res where r: "vertical_loop env (nat (num_steps_vertical cfg)) (vertical_init env cfg lg1)
        = Inl (lg, res)"
      "exit_message res = Some ''Analysis Failed In Vertical Loading''"
      "series_lengths res = map (\<lambda>l. l + (k - 1)) (series_lengths (snd (vertical_init env cfg lg1)))"
      "no_limit_point res = no_limit_point (snd (vertical_init env cfg lg1))"
    by blast
  have ne: "lower analysis_type \<noteq> ''proportional_limit_point''"
    using assms(1) by simp
  have "run_ops_analysis env analysis_type cfg lg0 = Some (Inr (lg, res))"
    unfolding run_ops_analysis_def using assms(1,2) nz r(1) ne by simp
  moreover have "series_lengths res = [k, k, k, k, k]"
    using r(3) kpos by (simp add: vertical_init_lengths)
  moreover have "no_limit_point res" using r(4) by (simp add: vertical_init_lengths)
  ultimately show ?thesis using r(2) by blast
qed


lemma third_increment_fails:
  "build_ops_model (scripted_env (\<lambda>k. if k = 3 then 1 else 0)) []
     = Inr [Wipe, Model, BuildFiberSection, Node 1, Node 2, Fix 1 1 1 1, Fix 2 0 1 0, Mass 2,
            Element ''zeroLengthSection'']"
  "vertical_fails_at (scripted_env (\<lambda>k. if k = 3 then 1 else 0))
     (vertical_init (scripted_env (\<lambda>k. if k = 3 then 1 else 0))
        (default_config\<lparr>num_steps_vertical := 10\<rparr>)
        [Wipe, Model, BuildFiberSection, Node 1, Node 2, Fix 1 1 1 1, Fix 2 0 1 0, Mass 2,
         Element ''zeroLengthSection'']) 3"
  by (simp_all add: build_ops_model_def scripted_env_def vertical_init_def record_vertical_def
      do_analyze_def analyze_count_def Let_def numeral_3_eq_3)

lemma lower_nonproportional:
  "lower ''nonproportional_limit_point'' = ''nonproportional_limit_point''"
  by (simp add: lower_def lower_char_def)

text \<open>
  Claim C4 as stated fails in its example: when the third call of the solver in the
  vertical phase (of 10) returns a nonzero status, two increments have succeeded and the
  series hold three records, not four.
\<close>

theorem vertical_failure_at_third_has_three_records:
  "map_option (map_sum id (length \<circ> applied_axial_load \<circ> snd))
       (run_ops_analysis (scripted_env (\<lambda>k. if k = 3 then 1 else 0))
          ''nonproportional_limit_point'' (default_config\<lparr>num_steps_vertical := 10\<rparr>) [])
     = Some (Inr 3)
   \<and> map_option (map_sum id (length \<circ> applied_axial_load \<circ> snd))
       (run_ops_analysis (scripted_env (\<lambda>k. if k = 3 then 1 else 0))
          ''nonproportional_limit_point'' (default_config\<lparr>num_steps_vertical := 10\<rparr>) [])
     \<noteq> Some (Inr 4)
   \<and> map_option (map_sum id (exit_message \<circ> snd))
       (run_ops_analysis (scripted_env (\<lambda>k. if k = 3 then 1 else 0))
          ''nonproportional_limit_point'' (default_config\<lparr>num_steps_vertical := 10\<rparr>) [])
     = Some (Inr (Some ''Analysis Failed In Vertical Loading''))"
proof -
  have "int 3 \<le> num_steps_vertical (default_config\<lparr>num_steps_vertical := 10\<rparr>)" by simp
  from nonprop_vertical_failure[OF lower_nonproportional third_increment_fails this]
  show ?thesis by (auto simp: series_lengths_def)
qed

text \<open>
  Claim C4, as the code has it. On the non-proportional path, if the \<open>k\<close>-th call of
  the solver in the vertical-load phase is the first to return a nonzero status (with
  \<open>k\<close> at most \<open>num_steps_vertical\<close>), the analysis returns at once with the exit
  message \<open>Analysis Failed In Vertical Loading\<close> (which contains \<open>Analysis Failed\<close>),
  no limit point is stored, and every series holds one initial record plus one record
  per successful increment, that is \<open>1 + (k - 1)\<close> records.
\<close>

theorem vertical_failure_returns_immediately:
  assumes "lower analysis_type = ''nonproportional_limit_point''"
    and "build_ops_model env lg0 = Inr lg1"
    and "vertical_fails_at env (vertical_init env cfg lg1) k"
    and "int k \<le> num_steps_vertical cfg"
  shows "\<exists>lg res. run_ops_analysis env analysis_type cfg lg0 = Some (Inr (lg, res))
     \<and> exit_message res = Some ''Analysis Failed In Vertical Loading''
     \<and> sublist ''Analysis Failed'' ''Analysis Failed In Vertical Loading''
     \<and> applied_axial_load_at_limit_point res = None
     \<and> maximum_abs_moment_at_limit_point res = None
     \<and> length (applied_axial_load res) = 1 + (k - 1)
     \<and> length (maximum_abs_moment res) = 1 + (k - 1)
     \<and> length (lowest_eigenvalue res) = 1 + (k - 1)
     \<and> length (maximum_concrete_compression_strain res) = 1 + (k - 1)
     \<and> length (maximum_steel_strain res) = 1 + (k - 1)"
proof -
  have kpos: "0 < k" using assms(3) by (cases k) simp_all
  from nonprop_vertical_failure[OF assms]
  obtain lg res where r: "run_ops_analysis env analysis_type cfg lg0 = Some (Inr (lg, res))"
    "exit_message res = Some ''Analysis Failed In Vertical Loading''"
    "no_limit_point res" "series_lengths res = [k, k, k, k, k]"
    by blast
  have "length (applied_axial_load res) = 1 + (k - 1)"
    "length (maximum_abs_moment res) = 1 + (k - 1)"
    "length (lowest_eigenvalue res) = 1 + (k - 1)"
    "length (maximum_concrete_compression_strain res) = 1 + (k - 1)"
    "length (maximum_steel_strain res) = 1 + (k - 1)"
    using r(4) kpos by (simp_all add: series_lengths_def)
  moreover have "applied_axial_load_at_limit_point res = None"
    "maximum_abs_moment_at_limit_point res = None"
    using r(3) by (simp_all add: no_limit_point_def)
  ultimately show ?thesis using r(1,2) known_messages(14) by blast
qed

theorem vertical_failure_returns_immediately_witness:
  "lower ''nonproportional_limit_point'' = ''nonproportional_limit_point''
   \<and> int 4 \<le> num_steps_vertical (default_config\<lparr>num_steps_vertical := 10\<rparr>)
   \<and> (case run_ops_analysis (scripted_env (\<lambda>k. if k = 4 then 1 else 0))
           ''nonproportional_limit_point'' (default_config\<lparr>num_steps_vertical := 10\<rparr>) [] of
        Some (Inr (lg, res)) \<Rightarrow>
          exit_message res = Some ''Analysis Failed In Vertical Loading''
          \<and> maximum_abs_moment_at_limit_point res = None
          \<and> length (applied_axial_load res) = 4
      | _ \<Rightarrow> False)"
proof -
  let ?env = "scripted_env (\<lambda>k. if k = 4 then 1 else 0)"
  let ?cfg = "default_config\<lparr>num_steps_vertical := 10\<rparr>"
  let ?lg1 = "[Wipe, Model, BuildFiberSection, Node 1, Node 2, Fix 1 1 1 1, Fix 2 0 1 0, Mass 2,
            Element ''zeroLengthSection'']"
  have b: "build_ops_model ?env [] = Inr ?lg1"
    by (simp add: build_ops_model_def scripted_env_def)
  have f: "vertical_fails_at ?env (vertical_init ?env ?cfg ?lg1) 4"
    by (simp add: scripted_env_def vertical_init_def record_vertical_def
      do_analyze_def analyze_count_def Let_def eval_nat_numeral)
  have n: "int 4 \<le> num_steps_vertical ?cfg" by simp
  from vertical_failure_returns_immediately[OF lower_nonproportional b f n]
  have "case run_ops_analysis ?env ''nonproportional_limit_point'' ?cfg [] of
        Some (Inr (lg, res)) \<Rightarrow>
          exit_message res = Some ''Analysis Failed In Vertical Loading''
          \<and> maximum_abs_moment_at_limit_point res = None
          \<and> length (applied_axial_load res) = 4
      | _ \<Rightarrow> False"
    by auto
  then show ?thesis using lower_nonproportional n by (intro conjI)
qed

section \<open>The proportional path records no moment\<close>

lemma record_prop_moment:
  "maximum_abs_moment (snd (record_prop env (lg, res))) = maximum_abs_moment res @ [0]"
  by (simp add: record_prop_def Let_def)

lemma prop_body_moment:
  assumes "all_zero (maximum_abs_moment res)"
  shows "case prop_body env cfg (lg, lif, mx, res) of
           Inl (lg', res') \<Rightarrow> all_zero (maximum_abs_moment res') \<and> exit_message res' \<noteq> None
         | Inr (lg', lif', mx', res') \<Rightarrow> all_zero (maximum_abs_moment res')"
proof -
  obtain ok lg1 lif1 where a: "prop_attempts env (try_smaller_steps cfg) lg lif = (ok, lg1, lif1)"
    by (cases "prop_attempts env (try_smaller_steps cfg) lg lif") auto
  obtain lg2 res2 where r: "record_prop env
      (lg1 @ [Algorithm Newton, Test (1 / 1000) 10, Integrator (LoadControl lif1)], res) = (lg2, res2)"
    by (cases "record_prop env
      (lg1 @ [Algorithm Newton, Test (1 / 1000) 10, Integrator (LoadControl lif1)], res)") auto
  have z: "all_zero (maximum_abs_moment res2)"
    using record_prop_moment[of env "lg1 @ [Algorithm Newton, Test (1 / 1000) 10, Integrator (LoadControl lif1)]" res]
      assms r by (simp add: all_zero_def)
  obtain msg mx2 where mo: "prop_monitors cfg mx res2 = (msg, mx2)"
    by (cases "prop_monitors cfg mx res2") auto
  show ?thesis
    using assms z by (simp add: prop_body_def a r mo split: option.splits)
qed

lemma prop_loop_moment:
  assumes "prop_loop env cfg st = Some fin"
  shows "all_zero (maximum_abs_moment (snd (snd (snd st)))) \<longrightarrow>
         all_zero (maximum_abs_moment (snd fin)) \<and> exit_message (snd fin) \<noteq> None"
proof (rule prop_loop.raw_induct[where P = "\<lambda>env cfg st fin.
         all_zero (maximum_abs_moment (snd (snd (snd st)))) \<longrightarrow>
         all_zero (maximum_abs_moment (snd fin)) \<and> exit_message (snd fin) \<noteq> None", OF _ assms])
  fix loop :: "env \<Rightarrow> config \<Rightarrow> loop_state \<Rightarrow> (cmd list \<times> results) option"
    and env cfg st fin
  assume IH: "\<And>env cfg st fin. loop env cfg st = Some fin \<Longrightarrow>
         all_zero (maximum_abs_moment (snd (snd (snd st)))) \<longrightarrow>
         all_zero (maximum_abs_moment (snd fin)) \<and> exit_message (snd fin) \<noteq> None"
    and eq: "(case prop_body env cfg st of Inl fin \<Rightarrow> Some fin | Inr st' \<Rightarrow> loop env cfg st')
         = Some fin"
  obtain lg lif mx res where st: "st = (lg, lif, mx, res)" by (cases st) auto
  show "all_zero (maximum_abs_moment (snd (snd (snd st)))) \<longrightarrow>
         all_zero (maximum_abs_moment (snd fin)) \<and> exit_message (snd fin) \<noteq> None"
  proof
    assume z: "all_zero (maximum_abs_moment (snd (snd (snd st))))"
    then have z': "all_zero (maximum_abs_moment res)" using st by simp
    note b = prop_body_moment[OF z', of env cfg lg lif mx]
    show "all_zero (maximum_abs_moment (snd fin)) \<and> exit_message (snd fin) \<noteq> None"
    proof (cases "prop_body env cfg (lg, lif, mx, res)")
      case (Inl f)
      then show ?thesis using b eq st by (auto split: prod.splits)
    next
      case (Inr st')
      then have "loop env cfg st' = Some fin" using eq st by simp
      from IH[OF this] Inr b show ?thesis by (auto split: prod.splits)
    qed
  qed
qed


lemma prop_init_moment: "maximum_abs_moment (snd (prop_init env cfg lg)) = [0]"
  by (simp add: prop_init_def record_prop_def initial_results_def Let_def)

lemma limit_point_from_moment:
  assumes "limit_point_from env res series target = Inr res'"
  shows "maximum_abs_moment res' = maximum_abs_moment res
     \<and> (\<exists>ind x m. interpolate_list env (maximum_abs_moment res) ind x = Some m
            \<and> maximum_abs_moment_at_limit_point res' = Some m)"
  using assms by (fastforce simp: limit_point_from_def split: option.splits)

lemma moment_limit_point_moment:
  assumes "moment_limit_point env res = Inr res'"
  shows "maximum_abs_moment res' = maximum_abs_moment res
     \<and> (\<exists>ind x m. interpolate_list env (maximum_abs_moment res) ind x = Some m
            \<and> maximum_abs_moment_at_limit_point res' = Some m)"
  using assms limit_point_from_moment
  by (auto simp: moment_limit_point_def split: sum.splits)

lemma chain_cases:
  assumes "r = (if A then X1 else if B then X2 else if C then X3 else if D then X4
                else if E then X5 else X6)"
  shows "r = X1 \<or> r = X2 \<or> r = X3 \<or> r = X4 \<or> r = X5 \<or> r = X6"
  using assms by auto

lemma find_limit_point_moment:
  assumes "find_limit_point env cfg res = Inr res'"
  shows "maximum_abs_moment res' = maximum_abs_moment res
     \<and> (\<exists>ind x m. interpolate_list env (maximum_abs_moment res) ind x = Some m
            \<and> maximum_abs_moment_at_limit_point res' = Some m)"
proof (cases "exit_message res")
  case None
  then have "find_limit_point env cfg res = Inl AttributeError"
    unfolding find_limit_point_def by (simp only: option.case)
  then show ?thesis using assms by simp
next
  case (Some msg)
  from chain_cases[OF find_limit_point_branches[OF Some, of env cfg]]
  consider (m) "find_limit_point env cfg res = moment_limit_point env res"
    | (l) series target where "find_limit_point env cfg res = limit_point_from env res series target"
    | (e) "find_limit_point env cfg res = Inl (Exception ''Unknown limit point'')"
    by blast
  then show ?thesis
  proof cases
    case m
    then show ?thesis using assms moment_limit_point_moment by simp
  next
    case l
    then show ?thesis using assms limit_point_from_moment by simp
  next
    case e
    then show ?thesis using assms by simp
  qed
qed

lemma interpolate_list_spec_zero:
  assumes "interpolate_list_spec xs ind x = Some m" "all_zero xs"
  shows "m = 0"
proof -
  have "xs ! i = 0" if "i < length xs" for i
    using assms(2) that by (simp add: all_zero_def)
  then show ?thesis
    using assms(1) by (auto simp: interpolate_list_spec_def split: if_splits)
qed

lemma lower_proportional:
  "lower ''proportional_limit_point'' = ''proportional_limit_point''"
  by (simp add: lower_def lower_char_def)

lemma proportional_result:
  assumes "lower analysis_type = ''proportional_limit_point''"
    and "run_ops_analysis env analysis_type cfg lg0 = Some (Inr (lg, res))"
  shows "all_zero (maximum_abs_moment res)
     \<and> (\<exists>ind x m. interpolate_list env (maximum_abs_moment res) ind x = Some m
            \<and> maximum_abs_moment_at_limit_point res = Some m)"
proof -
  from assms(2) obtain lg1 where b: "build_ops_model env lg0 = Inr lg1"
    by (auto simp: run_ops_analysis_def split: sum.splits)
  obtain lg2 res2 where i: "prop_init env cfg lg1 = (lg2, res2)"
    by (cases "prop_init env cfg lg1") auto
  have z2: "maximum_abs_moment res2 = [0]"
    using prop_init_moment[of env cfg lg1] i by simp
  have fin: "finish env cfg (prop_loop env cfg (lg2, load_incr_factor cfg, 0, res2))
       = Some (Inr (lg, res))"
    using assms b i by (simp add: run_ops_analysis_def)
  then obtain res3 where l: "prop_loop env cfg (lg2, load_incr_factor cfg, 0, res2) = Some (lg, res3)"
    and f: "find_limit_point env cfg res3 = Inr res"
    by (auto simp: finish_def split: option.splits sum.splits)
  have z3: "all_zero (maximum_abs_moment res3)"
    using prop_loop_moment[OF l] z2 by (simp add: all_zero_def)
  show ?thesis
    using find_limit_point_moment[OF f] z3 by auto
qed


lemma interaction_loop_lists:
  assumes "interaction_loop env num_points nl P0 idx (lg, P, M) = Some (Inr (lg', P', M'))"
  shows "P' = P @ map (\<lambda>i. P0 * real_of_int (num_points - 1 - i) / real_of_int (num_points - 1)) idx
     \<and> (\<exists>ms. M' = M @ ms \<and> length ms = length idx)"
  using assms
proof (induction idx arbitrary: lg P M)
  case Nil
  then show ?case by simp
next
  case (Cons i rest)
  let ?iP = "P0 * real_of_int (num_points - 1 - i) / real_of_int (num_points - 1)"
  from Cons.prems obtain lg1 res mm where
    step: "interaction_loop env num_points nl P0 rest (lg1, P @ [?iP], M @ [mm])
             = Some (Inr (lg', P', M'))"
    by (auto simp: Let_def split: option.splits sum.splits prod.splits)
  from Cons.IH[OF step]
  obtain ms where "P' = (P @ [?iP]) @ map (\<lambda>i. P0 * real_of_int (num_points - 1 - i)
                           / real_of_int (num_points - 1)) rest"
    "M' = (M @ [mm]) @ ms" "length ms = length rest"
    by blast
  then have "P' = P @ map (\<lambda>i. P0 * real_of_int (num_points - 1 - i)
                           / real_of_int (num_points - 1)) (i # rest)"
    "M' = M @ (mm # ms)" "length (mm # ms) = length (i # rest)"
    by simp_all
  then show ?case by blast
qed

lemma run_ops_interaction_lists:
  assumes "run_ops_interaction env num_points pl nl lg0 = Some (Inr (lg', P, M))"
  shows "\<exists>lg res mx ms.
       run_ops_analysis env ''proportional_limit_point''
         (default_config\<lparr>load_incr_factor := pl\<rparr>) lg0 = Some (Inr (lg, res))
     \<and> py_max (applied_axial_load res) = Inr mx
     \<and> P = mx # map (\<lambda>i. mx * real_of_int (num_points - 1 - i) / real_of_int (num_points - 1))
                   [1 .. num_points - 1]
     \<and> M = 0 # ms \<and> length ms = length [1 .. num_points - 1]"
proof -
  from assms obtain lg res mx where
    r: "run_ops_analysis env ''proportional_limit_point''
         (default_config\<lparr>load_incr_factor := pl\<rparr>) lg0 = Some (Inr (lg, res))"
    and m: "py_max (applied_axial_load res) = Inr mx"
    and l: "interaction_loop env num_points nl mx [1 .. num_points - 1] (lg, [mx], [0])
         = Some (Inr (lg', P, M))"
    by (auto simp: run_ops_interaction_def split: option.splits sum.splits prod.splits if_splits)
  from interaction_loop_lists[OF l] r m show ?thesis by auto
qed

lemma prop_attempts_all_fail:
  assumes "\<forall>l. ops_analyze env l \<noteq> 0"
  shows "fst (prop_attempts env tss lg lif) \<noteq> 0"
  using assms by (simp add: prop_attempts_def do_analyze_def Let_def)

lemma prop_body_failed:
  assumes "fst (prop_attempts env (try_smaller_steps cfg) lg lif) \<noteq> 0"
  shows "\<exists>lg'. prop_body env cfg (lg, lif, mx, res)
           = Inl (lg', res\<lparr>exit_message := Some ''Analysis Failed''\<rparr>)"
  using assms by (auto simp: prop_body_def split: prod.splits)

lemma prop_init_load: "\<exists>t. applied_axial_load (snd (prop_init env cfg lg)) = [t]"
  by (simp add: prop_init_def record_prop_def initial_results_def Let_def)

lemma failing_solver_proportional_run:
  "\<exists>lg res. run_ops_analysis (scripted_env (\<lambda>k. 1)) ''proportional_limit_point'' cfg [] = Some (Inr (lg, res))
      \<and> length (applied_axial_load res) = 1"
proof -
  let ?env = "scripted_env (\<lambda>k. 1)"
  obtain lg1 where b: "build_ops_model ?env [] = Inr lg1"
    by (simp add: build_ops_model_def scripted_env_def)
  obtain lg2 res2 where i: "prop_init ?env cfg lg1 = (lg2, res2)"
    by (cases "prop_init ?env cfg lg1") auto
  obtain t where ld: "applied_axial_load res2 = [t]"
    using prop_init_load[of ?env cfg lg1] i by auto
  have mo: "maximum_abs_moment res2 = [0]"
    using prop_init_moment[of ?env cfg lg1] i by simp
  have all: "\<forall>l. ops_analyze ?env l \<noteq> 0" by (simp add: scripted_env_def)
  from prop_body_failed[OF prop_attempts_all_fail[OF all]]
  obtain lg3 where body: "prop_body ?env cfg (lg2, load_incr_factor cfg, 0, res2)
      = Inl (lg3, res2\<lparr>exit_message := Some ''Analysis Failed''\<rparr>)"
    by blast
  have loop: "prop_loop ?env cfg (lg2, load_incr_factor cfg, 0, res2)
      = Some (lg3, res2\<lparr>exit_message := Some ''Analysis Failed''\<rparr>)"
    by (subst prop_loop.simps) (simp add: body)
  let ?res3 = "res2\<lparr>exit_message := Some ''Analysis Failed''\<rparr>"
  have msg: "exit_message ?res3 = Some ''Analysis Failed''" by simp
  have ml: "moment_limit_point ?env ?res3
     = Inr (?res3\<lparr>applied_axial_load_at_limit_point := Some t,
                   maximum_abs_moment_at_limit_point := Some 0\<rparr>)"
    by (simp add: moment_limit_point_def limit_point_from_def py_max_def scripted_env_def
        interpolate_list_spec_def ld mo)
  have fl: "find_limit_point ?env cfg ?res3
     = Inr (?res3\<lparr>applied_axial_load_at_limit_point := Some t,
                   maximum_abs_moment_at_limit_point := Some 0\<rparr>)"
    unfolding find_limit_point_branches[OF msg] using ml known_messages(1) by simp
  have "run_ops_analysis ?env ''proportional_limit_point'' cfg []
     = Some (Inr (lg3, ?res3\<lparr>applied_axial_load_at_limit_point := Some t,
                   maximum_abs_moment_at_limit_point := Some 0\<rparr>))"
    by (simp add: run_ops_analysis_def b lower_proportional i loop finish_def fl)
  then show ?thesis using ld by simp
qed

text \<open>
  Claim C10. On the proportional path every entry appended to the maximum-absolute-moment
  series is 0, so for every proportional continuation that returns, whatever its exit
  condition, the reported \<open>maximum_abs_moment_at_limit_point\<close> is 0 (with
  \<open>interpolate_list\<close> the linear interpolation the design describes), and the first
  point of the interaction curve, the axial-only point, has moment 0.
\<close>

theorem proportional_moment_is_zero:
  "(lower analysis_type = ''proportional_limit_point''
      \<and> run_ops_analysis env analysis_type cfg lg0 = Some (Inr (lg, res)) \<longrightarrow>
        (\<forall>v\<in>set (maximum_abs_moment res). v = 0)
        \<and> (interpolate_list env = interpolate_list_spec \<longrightarrow>
              maximum_abs_moment_at_limit_point res = Some 0))
   \<and> (run_ops_interaction env num_points pl nl lg0 = Some (Inr (lg', P, M)) \<longrightarrow>
        M \<noteq> [] \<and> M ! 0 = 0)"
proof -
  have a: "(\<forall>v\<in>set (maximum_abs_moment res). v = 0)
        \<and> (interpolate_list env = interpolate_list_spec \<longrightarrow>
              maximum_abs_moment_at_limit_point res = Some 0)"
    if "lower analysis_type = ''proportional_limit_point''"
      and "run_ops_analysis env analysis_type cfg lg0 = Some (Inr (lg, res))"
  proof -
    from proportional_result[OF that]
    obtain ind x m where z: "all_zero (maximum_abs_moment res)"
      and i: "interpolate_list env (maximum_abs_moment res) ind x = Some m"
      and l: "maximum_abs_moment_at_limit_point res = Some m"
      by blast
    have "m = 0" if "interpolate_list env = interpolate_list_spec"
      using interpolate_list_spec_zero[OF _ z] i that by simp
    then show ?thesis using z l by (simp add: all_zero_def)
  qed
  have b: "M \<noteq> [] \<and> M ! 0 = 0"
    if "run_ops_interaction env num_points pl nl lg0 = Some (Inr (lg', P, M))"
    using run_ops_interaction_lists[OF that] by auto
  show ?thesis using a b by blast
qed

theorem proportional_moment_is_zero_witness:
  "lower ''proportional_limit_point'' = ''proportional_limit_point''
   \<and> interpolate_list (scripted_env (\<lambda>k. 1)) = interpolate_list_spec
   \<and> (case run_ops_analysis (scripted_env (\<lambda>k. 1)) ''proportional_limit_point'' default_config [] of
        Some (Inr (lg, res)) \<Rightarrow>
          list_all (\<lambda>v. v = 0) (maximum_abs_moment res)
          \<and> maximum_abs_moment_at_limit_point res = Some 0
      | _ \<Rightarrow> False)
   \<and> (case run_ops_interaction (scripted_env (\<lambda>k. 1)) 1 (1 / 100) (1 / 100) [] of
        Some (Inr (lg, P, M)) \<Rightarrow> M \<noteq> [] \<and> M ! 0 = 0
      | _ \<Rightarrow> False)"
proof -
  let ?env = "scripted_env (\<lambda>k. 1)"
  have il: "interpolate_list ?env = interpolate_list_spec" by (simp add: scripted_env_def)
  obtain lg res where r: "run_ops_analysis ?env ''proportional_limit_point'' default_config []
      = Some (Inr (lg, res))"
    using failing_solver_proportional_run by blast
  from proportional_moment_is_zero[of "''proportional_limit_point''" ?env default_config "[]" lg res,
      THEN conjunct1, THEN mp, OF conjI, OF lower_proportional r] il
  have a: "list_all (\<lambda>v. v = 0) (maximum_abs_moment res)
          \<and> maximum_abs_moment_at_limit_point res = Some 0"
    by (simp add: list_all_iff)
  obtain lg2 res2 where r2: "run_ops_analysis ?env ''proportional_limit_point''
        (default_config\<lparr>load_incr_factor := 1 / 100\<rparr>) [] = Some (Inr (lg2, res2))"
      and len: "length (applied_axial_load res2) = 1"
    using failing_solver_proportional_run by blast
  obtain t where t: "applied_axial_load res2 = [t]"
    using len by (cases "applied_axial_load res2") auto
  have i: "run_ops_interaction ?env 1 (1 / 100) (1 / 100) [] = Some (Inr (lg2, [t], [0]))"
    by (simp add: run_ops_interaction_def r2 t py_max_def axial_only_failed_def)
  from proportional_moment_is_zero[of _ ?env _ "[]" _ _ 1 "1 / 100" "1 / 100" lg2 "[t]" "[0]",
      THEN conjunct2, THEN mp, OF i]
  have b: "case run_ops_interaction ?env 1 (1 / 100) (1 / 100) [] of
        Some (Inr (lg, P, M)) \<Rightarrow> M \<noteq> [] \<and> M ! 0 = 0
      | _ \<Rightarrow> False"
    by (simp add: i)
  show ?thesis using lower_proportional il a b r by simp
qed

section \<open>The interaction sweep\<close>

lemma axial_only_failed_never: "\<not> axial_only_failed mx"
  by (simp add: axial_only_failed_def)

lemma py_max_error: "py_max xs = Inl err \<Longrightarrow> err \<in> controller_errors"
  by (auto simp: py_max_def controller_errors_def split: list.splits)

lemma limit_point_from_error:
  "limit_point_from env res series target = Inl err \<Longrightarrow> err \<in> controller_errors"
  by (auto simp: limit_point_from_def controller_errors_def split: option.splits)

lemma moment_limit_point_error:
  "moment_limit_point env res = Inl err \<Longrightarrow> err \<in> controller_errors"
  using py_max_error limit_point_from_error
  by (auto simp: moment_limit_point_def split: sum.splits)

lemma find_limit_point_error:
  assumes "find_limit_point env cfg res = Inl err"
  shows "err \<in> controller_errors"
proof (cases "exit_message res")
  case None
  then have "find_limit_point env cfg res = Inl AttributeError"
    unfolding find_limit_point_def by (simp only: option.case)
  then show ?thesis using assms by (simp add: controller_errors_def)
next
  case (Some msg)
  from chain_cases[OF find_limit_point_branches[OF Some, of env cfg]]
  consider (m) "find_limit_point env cfg res = moment_limit_point env res"
    | (l) series target where "find_limit_point env cfg res = limit_point_from env res series target"
    | (e) "find_limit_point env cfg res = Inl (Exception ''Unknown limit point'')"
    by blast
  then show ?thesis
  proof cases
    case m
    then show ?thesis using assms moment_limit_point_error by simp
  next
    case l
    then show ?thesis using assms limit_point_from_error by simp
  next
    case e
    then show ?thesis using assms by (simp add: controller_errors_def)
  qed
qed

lemma finish_error: "finish env cfg r = Some (Inl err) \<Longrightarrow> err \<in> controller_errors"
  using find_limit_point_error
  by (auto simp: finish_def split: option.splits sum.splits)

lemma build_ops_model_error: "build_ops_model env lg = Inl err \<Longrightarrow> err \<in> controller_errors"
  by (auto simp: build_ops_model_def controller_errors_def Let_def split: if_splits)

lemma run_ops_analysis_error:
  assumes "run_ops_analysis env analysis_type cfg lg0 = Some (Inl err)"
  shows "err \<in> controller_errors"
proof (cases "build_ops_model env lg0")
  case (Inl e)
  then show ?thesis using assms build_ops_model_error by (simp add: run_ops_analysis_def)
next
  case (Inr lg1)
  show ?thesis
  proof (cases "lower analysis_type = ''proportional_limit_point''")
    case True
    then show ?thesis using assms Inr finish_error
      by (auto simp: run_ops_analysis_def split: prod.splits)
  next
    case np: False
    show ?thesis
    proof (cases "lower analysis_type = ''nonproportional_limit_point''")
      case True
      then show ?thesis using assms Inr np finish_error
        by (auto simp: run_ops_analysis_def controller_errors_def
            split: prod.splits sum.splits if_splits)
    next
      case False
      then show ?thesis using assms Inr np
        by (auto simp: run_ops_analysis_def controller_errors_def)
    qed
  qed
qed

lemma interaction_loop_error:
  assumes "interaction_loop env num_points nl P0 idx st = Some (Inl err)"
  shows "err \<in> controller_errors"
  using assms
proof (induction idx arbitrary: st)
  case Nil
  then show ?case by simp
next
  case (Cons i rest)
  obtain lg P M where st: "st = (lg, P, M)" by (cases st) auto
  let ?r = "run_ops_analysis env ''nonproportional_limit_point''
              (default_config\<lparr>arg_P := P0 * real_of_int (num_points - 1 - i)
                  / real_of_int (num_points - 1), load_incr_factor := nl\<rparr>) lg"
  show ?case
  proof (cases ?r)
    case None
    then show ?thesis using Cons.prems st by (simp add: Let_def)
  next
    case (Some r)
    show ?thesis
    proof (cases r)
      case (Inl e)
      then show ?thesis using Cons.prems st Some run_ops_analysis_error[of env _ _ lg e]
        by (simp add: Let_def)
    next
      case (Inr p)
      obtain lg1 res where p: "p = (lg1, res)" by (cases p) auto
      show ?thesis
      proof (cases "py_max (maximum_abs_moment res)")
        case (Inl e)
        then show ?thesis using Cons.prems st Some Inr p py_max_error[of _ e]
          by (simp add: Let_def)
      next
        case mm: (Inr mm)
        then show ?thesis using Cons.prems st Some Inr p Cons.IH
          by (simp add: Let_def)
      qed
    qed
  qed
qed

text \<open>
  Claim C9, where the code departs from it: the test \<open>P in [None, [None]]\<close> is false
  for every number, so the error \<open>Analysis failed at axial only loading\<close> is never
  raised, whatever the axial-only analysis produced. (The structure of the sweep, one
  proportional analysis and then one non-proportional analysis per remaining point at
  linearly spaced loads, is \<open>run_ops_interaction_lists\<close>.)
\<close>

theorem axial_only_guard_never_raises:
  "run_ops_interaction env num_points prop_load_incr_factor nonprop_load_incr_factor lg0
     \<noteq> Some (Inl (ValueError ''Analysis failed at axial only loading''))"
proof
  assume h: "run_ops_interaction env num_points prop_load_incr_factor nonprop_load_incr_factor lg0
     = Some (Inl (ValueError ''Analysis failed at axial only loading''))"
  have "ValueError ''Analysis failed at axial only loading'' \<in> controller_errors"
    using h run_ops_analysis_error py_max_error interaction_loop_error axial_only_failed_never
    by (auto simp: run_ops_interaction_def split: option.splits sum.splits prod.splits)
  then show False by (auto simp: controller_errors_def)
qed

end
